theory Spec2Isabelle
  imports Complex_Main
begin

section \<open>SolumaChat: the window-state and positioning coordinator of src/index.js\<close>

text \<open>
  The Electron main process of src/index.js keeps four module-level references
  (\<open>mainWindow\<close>, \<open>companionWindow\<close>, \<open>loginWindow\<close>, \<open>tray\<close>) and one
  persistent \<open>electron-store\<close>. Every function of the file that the properties below
  are about is embedded as a function on an explicit state; a JavaScript exception is
  the outcome \<open>Thrown\<close>, which keeps the state reached when the exception was raised.

  A method of a window sets the flags of that window only: how the window server moves
  focus between windows is outside the file. Console logging, analytics, the dock
  icon, the CSS and script injected into the page, and the handlers \<open>reset-server\<close>,
  \<open>hide-companion\<close>, \<open>activate\<close> and \<open>window-all-closed\<close> are not part of the model.
\<close>

subsection \<open>Data\<close>

text \<open>
  A \<open>BrowserWindow\<close> object as far as the file observes it: \<open>isDestroyed()\<close>,
  \<open>isVisible()\<close>, \<open>isFocused()\<close>, the size reported by \<open>getBounds()\<close> (Electron
  rectangles have integer members), the position last given to \<open>setPosition\<close>
  (\<open>None\<close> while the window still has the placement Electron chose), and the URL it
  was asked to load.
\<close>

record window =
  isDestroyed :: bool
  isVisible :: bool
  isFocused :: bool
  position :: "(int \<times> int) option"
  width :: int
  height :: int
  loadedURL :: string

text \<open>The functions that the file installs as click handlers, as data.\<close>

datatype click =
    OpenSolumaChat
  | ToggleCompanion
  | UpdateSetting string string

datatype submenu_item = Radio string bool click

datatype menu_item =
    Item string click
  | Separator
  | Submenu string "submenu_item list"
  | RoleItem string string

datatype listener = ToggleWindowListener | PopUpContextMenu "menu_item list"

record tray_icon =
  trayDestroyed :: bool
  toolTip :: string
  contextMenu :: "menu_item list option"
  clickListeners :: "listener list"
  rightClickListeners :: "listener list"

text \<open>
  The persisted store: the keys \<open>serverHost\<close>, \<open>computerId\<close> and \<open>settings\<close>; a key
  that was never set reads as \<open>undefined\<close> (\<open>None\<close>). The \<open>settings\<close> value is a
  JavaScript object, a finite map from property names to strings.
\<close>

record store_contents =
  serverHost :: "string option"
  computerId :: "string option"
  settings :: "(string \<rightharpoonup> string) option"

datatype window_kind = Main | Companion | Login

text \<open>The calls into Electron that have an effect outside the process, in the order made.\<close>

datatype event =
    NewBrowserWindow window_kind string
  | SetApplicationMenu string
  | BuildTrayMenu
  | NewTray
  | TrayDestroy
  | RegisterShortcut string
  | ShowMessageBox
  | IpcSend string

record state =
  mainWindow :: "window option"
  companionWindow :: "window option"
  loginWindow :: "window option"
  tray :: "tray_icon option"
  store :: store_contents
  workAreaWidth :: int
  workAreaHeight :: int
  shortcutRegistered :: bool
  trace :: "event list"

datatype error = NullDereference | ObjectDestroyed

datatype outcome = Done state | Thrown error state

fun state_of :: "outcome \<Rightarrow> state" where
  "state_of (Done st) = st"
| "state_of (Thrown e st) = st"

fun andThen :: "outcome \<Rightarrow> (state \<Rightarrow> outcome) \<Rightarrow> outcome" where
  "andThen (Done st) f = f st"
| "andThen (Thrown e st) f = Thrown e st"

subsection \<open>The position resolver (getWindowPosition)\<close>

text \<open>
  \<open>Math.round\<close> rounds to the nearest integer, a tie towards plus infinity. The
  arithmetic of the switch is carried out on rationals: with integer sizes the halves
  and differences are exact in double precision, and the product with the literal
  \<open>0.1\<close> rounds to the same integer as the exact tenth.
\<close>

definition Math_round :: "rat \<Rightarrow> int" where
  "Math_round q = \<lfloor>q + 1 / 2\<rfloor>"

text \<open>
  The \<open>switch (position)\<close> of \<open>getWindowPosition\<close>; \<open>position\<close> is \<open>None\<close> when the
  expression \<open>overridePosition || settings.position\<close> is \<open>undefined\<close>.
\<close>

definition positionSwitch :: "string option \<Rightarrow> int \<Rightarrow> int \<Rightarrow> int \<Rightarrow> int \<Rightarrow> int \<times> int" where
  "positionSwitch pos windowWidth windowHeight screenWidth screenHeight =
     (if pos = Some ''bottom-center'' then
        (Math_round (of_int screenWidth / 2 - of_int windowWidth / 2),
         Math_round (of_int screenHeight - of_int windowHeight - 20))
      else if pos = Some ''bottom-left'' then
        (20,
         Math_round (of_int screenHeight - of_int windowHeight - 20))
      else if pos = Some ''bottom-right'' then
        (Math_round (of_int screenWidth - of_int windowWidth - 20),
         Math_round (of_int screenHeight - of_int windowHeight - 20))
      else if pos = Some ''center'' then
        (Math_round (of_int screenWidth / 2 - of_int windowWidth / 2),
         Math_round (of_int screenHeight / 2 - of_int windowHeight / 2))
      else if pos = Some ''top-right'' then
        (Math_round (of_int screenWidth - of_int windowWidth - 20),
         Math_round (of_int screenHeight * (1 / 10)))
      else
        (Math_round (of_int screenWidth / 2 - of_int windowWidth / 2),
         Math_round (of_int screenHeight * (1 / 10))))"

text \<open>\<open>store.get('settings') || { position: 'top-center' }\<close>\<close>

definition positionSettings :: "store_contents \<Rightarrow> (string \<rightharpoonup> string)" where
  "positionSettings s =
     (case settings s of
        Some m \<Rightarrow> m
      | None \<Rightarrow> [''position'' \<mapsto> ''top-center''])"

text \<open>\<open>overridePosition || settings.position\<close>: an absent or empty override is falsy.\<close>

definition orElse :: "string option \<Rightarrow> string option \<Rightarrow> string option" where
  "orElse a b = (case a of None \<Rightarrow> b | Some s \<Rightarrow> if s = [] then b else Some s)"

definition getWindowPosition :: "state \<Rightarrow> string option \<Rightarrow> error + (int \<times> int)" where
  "getWindowPosition st overridePosition =
     (case companionWindow st of
        None \<Rightarrow> Inl NullDereference
      | Some w \<Rightarrow>
          if isDestroyed w then Inl ObjectDestroyed
          else Inr (positionSwitch
                      (orElse overridePosition (positionSettings (store st) ''position''))
                      (width w) (height w) (workAreaWidth st) (workAreaHeight st)))"

subsection \<open>Window creation and startup\<close>

text \<open>\<open>serverHost.startsWith("http") ? serverHost : `https://${serverHost}`\<close>\<close>

definition startsWith :: "string \<Rightarrow> string \<Rightarrow> bool" where
  "startsWith s p = (take (length p) s = p)"

definition hostURL :: "string \<Rightarrow> string" where
  "hostURL host = (if startsWith host ''http'' then host else ''https://'' @ host)"

text \<open>
  \<open>new BrowserWindow(options)\<close>: a live window of the given size; with \<open>show: false\<close>
  it is neither visible nor focused, otherwise Electron shows and focuses it. The
  login window is 600 by 800, the companion window 400 by 600; the main window gives
  \<open>height: 800\<close> and takes Electron's default width of 800.
\<close>

definition newBrowserWindow :: "int \<Rightarrow> int \<Rightarrow> bool \<Rightarrow> window" where
  "newBrowserWindow w h shown =
     \<lparr>isDestroyed = False, isVisible = shown, isFocused = shown, position = None,
      width = w, height = h, loadedURL = []\<rparr>"

definition createLoginWindow :: "state \<Rightarrow> state" where
  "createLoginWindow st =
     st\<lparr>loginWindow := Some ((newBrowserWindow 600 800 True)\<lparr>loadedURL := ''login.html''\<rparr>),
        trace := trace st @ [NewBrowserWindow Login ''login.html'']\<rparr>"

text \<open>\<open>buildMenu(serverHost)\<close> ends in \<open>Menu.setApplicationMenu\<close> of a menu bound to the host.\<close>

definition buildMenu :: "state \<Rightarrow> string \<Rightarrow> state" where
  "buildMenu st host = st\<lparr>trace := trace st @ [SetApplicationMenu host]\<rparr>"

definition createMainWindow :: "state \<Rightarrow> string \<Rightarrow> state" where
  "createMainWindow st host =
     buildMenu
       (st\<lparr>mainWindow := Some ((newBrowserWindow 800 800 True)\<lparr>loadedURL := hostURL host\<rparr>),
           trace := trace st @ [NewBrowserWindow Main (hostURL host)]\<rparr>)
       host"

definition createCompanionWindow :: "state \<Rightarrow> string \<Rightarrow> state" where
  "createCompanionWindow st host =
     st\<lparr>companionWindow := Some ((newBrowserWindow 400 600 False)\<lparr>loadedURL := hostURL host\<rparr>),
        trace := trace st @ [NewBrowserWindow Companion (hostURL host)]\<rparr>"

text \<open>\<open>if (savedHost)\<close>: an absent key and the empty string are both falsy.\<close>

definition initialize :: "state \<Rightarrow> state" where
  "initialize st =
     (case serverHost (store st) of
        None \<Rightarrow> createLoginWindow st
      | Some savedHost \<Rightarrow>
          if savedHost \<noteq> [] then createMainWindow (createCompanionWindow st savedHost) savedHost
          else createLoginWindow st)"

subsection \<open>The tray (createTray) and updateSetting\<close>

text \<open>The default object of \<open>createTray\<close>, used when the \<open>settings\<close> key is absent.\<close>

definition defaultSettings :: "string \<rightharpoonup> string" where
  "defaultSettings =
     [''position'' \<mapsto> ''top-center'', ''resetTimer'' \<mapsto> ''10m'',
      ''openNewChats'' \<mapsto> ''companion'', ''trayVisibility'' \<mapsto> ''always'']"

definition traySettings :: "store_contents \<Rightarrow> (string \<rightharpoonup> string)" where
  "traySettings s = (case settings s of Some m \<Rightarrow> m | None \<Rightarrow> defaultSettings)"

text \<open>The template given to \<open>Menu.buildFromTemplate\<close> in \<open>createTray\<close>.\<close>

definition trayTemplate :: "(string \<rightharpoonup> string) \<Rightarrow> menu_item list" where
  "trayTemplate cfg =
     [Item ''Open Soluma Chat'' OpenSolumaChat,
      Item ''Open Companion'' ToggleCompanion,
      Separator,
      Submenu ''Companion Position''
        [Radio ''Bottom Center'' (cfg ''position'' = Some ''bottom-center'')
           (UpdateSetting ''position'' ''bottom-center''),
         Radio ''Bottom Left'' (cfg ''position'' = Some ''bottom-left'')
           (UpdateSetting ''position'' ''bottom-left''),
         Radio ''Bottom Right'' (cfg ''position'' = Some ''bottom-right'')
           (UpdateSetting ''position'' ''bottom-right'')],
      Separator,
      Submenu ''Show in Menu Bar''
        [Radio ''Always'' (cfg ''trayVisibility'' = Some ''always'')
           (UpdateSetting ''trayVisibility'' ''always''),
         Radio ''When app is running'' (cfg ''trayVisibility'' = Some ''running'')
           (UpdateSetting ''trayVisibility'' ''running''),
         Radio ''Never'' (cfg ''trayVisibility'' = Some ''never'')
           (UpdateSetting ''trayVisibility'' ''never'')],
      Separator,
      RoleItem ''Quit'' ''quit'']"

definition newTray :: tray_icon where
  "newTray =
     \<lparr>trayDestroyed = False, toolTip = ''Soluma Chat'', contextMenu = None,
      clickListeners = [], rightClickListeners = []\<rparr>"

text \<open>
  The tail of \<open>createTray\<close>: \<open>setContextMenu(null)\<close>, \<open>removeAllListeners\<close> and the two
  \<open>tray.on\<close> calls; each is a method call on the tray object and throws on a
  destroyed one.
\<close>

definition attachHandlers :: "state \<Rightarrow> menu_item list \<Rightarrow> outcome" where
  "attachHandlers st menu =
     (case tray st of
        None \<Rightarrow> Thrown NullDereference st
      | Some t \<Rightarrow>
          if trayDestroyed t then Thrown ObjectDestroyed st
          else Done (st\<lparr>tray := Some (t\<lparr>contextMenu := None,
                                          clickListeners := [ToggleWindowListener],
                                          rightClickListeners := [PopUpContextMenu menu]\<rparr>)\<rparr>))"

definition createTray :: "state \<Rightarrow> outcome" where
  "createTray st =
     (let cfg = traySettings (store st) in
      if cfg ''trayVisibility'' = Some ''never'' then
        (case tray st of
           None \<Rightarrow> Done st
         | Some t \<Rightarrow>
             if \<not> trayDestroyed t
             then Done (st\<lparr>tray := None, trace := trace st @ [TrayDestroy]\<rparr>)
             else Done st)
      else
        (let menu = trayTemplate cfg;
             st1 = st\<lparr>trace := trace st @ [BuildTrayMenu]\<rparr>;
             st2 = (case tray st1 of
                      Some t \<Rightarrow> st1
                    | None \<Rightarrow> st1\<lparr>tray := Some newTray, trace := trace st1 @ [NewTray]\<rparr>)
         in attachHandlers st2 menu))"

text \<open>\<open>companionWindow.setPosition(x, y, animate)\<close>\<close>

definition setPosition :: "state \<Rightarrow> int \<times> int \<Rightarrow> outcome" where
  "setPosition st p =
     (case companionWindow st of
        None \<Rightarrow> Thrown NullDereference st
      | Some w \<Rightarrow>
          if isDestroyed w then Thrown ObjectDestroyed st
          else Done (st\<lparr>companionWindow := Some (w\<lparr>position := Some p\<rparr>)\<rparr>))"

definition updateSetting :: "state \<Rightarrow> string \<Rightarrow> string \<Rightarrow> outcome" where
  "updateSetting st key val =
     (let m = (case settings (store st) of Some m \<Rightarrow> m | None \<Rightarrow> Map.empty);
          st1 = st\<lparr>store := (store st)\<lparr>settings := Some (m(key \<mapsto> val))\<rparr>\<rparr>
      in andThen (createTray st1) (\<lambda>st2.
           if key = ''position'' \<and> companionWindow st2 \<noteq> None then
             (case getWindowPosition st2 (Some val) of
                Inl e \<Rightarrow> Thrown e st2
              | Inr p \<Rightarrow> setPosition st2 p)
           else Done st2))"

subsection \<open>The companion window: toggleWindow and showWindow\<close>

text \<open>
  A method call on \<open>companionWindow\<close>: a \<open>TypeError\<close> when the variable is \<open>null\<close>,
  Electron's "Object has been destroyed" when the native window is gone.
\<close>

definition onCompanion :: "state \<Rightarrow> (window \<Rightarrow> window) \<Rightarrow> outcome" where
  "onCompanion st f =
     (case companionWindow st of
        None \<Rightarrow> Thrown NullDereference st
      | Some w \<Rightarrow>
          if isDestroyed w then Thrown ObjectDestroyed st
          else Done (st\<lparr>companionWindow := Some (f w)\<rparr>))"

definition hide :: "window \<Rightarrow> window" where
  "hide w = w\<lparr>isVisible := False, isFocused := False\<rparr>"

definition show_window :: "window \<Rightarrow> window" where
  "show_window w = w\<lparr>isVisible := True, isFocused := True\<rparr>"

definition focus :: "window \<Rightarrow> window" where
  "focus w = w\<lparr>isFocused := True\<rparr>"

definition showWindow :: "state \<Rightarrow> outcome" where
  "showWindow st =
     (case getWindowPosition st None of
        Inl e \<Rightarrow> Thrown e st
      | Inr p \<Rightarrow>
          andThen (setPosition st p) (\<lambda>st1.
          andThen (onCompanion st1 show_window) (\<lambda>st2.
          onCompanion st2 focus)))"

definition toggleWindow :: "state \<Rightarrow> outcome" where
  "toggleWindow st =
     (case companionWindow st of
        None \<Rightarrow> Thrown NullDereference st
      | Some w \<Rightarrow>
          if isDestroyed w then Thrown ObjectDestroyed st
          else if isVisible w then
            (if isFocused w then onCompanion st hide else onCompanion st focus)
          else showWindow st)"

subsection \<open>Event handlers\<close>

text \<open>The callback registered for \<open>Option+Space\<close>.\<close>

definition hotkeyPressed :: "state \<Rightarrow> outcome" where
  "hotkeyPressed st =
     (case companionWindow st of
        None \<Rightarrow> Done st
      | Some w \<Rightarrow> if \<not> isDestroyed w then toggleWindow st else Done st)"

fun runListener :: "listener \<Rightarrow> state \<Rightarrow> outcome" where
  "runListener ToggleWindowListener st = toggleWindow st"
| "runListener (PopUpContextMenu menu) st = Done st"

text \<open>A left click on the tray icon runs the listeners of its \<open>click\<close> event.\<close>

fun runListeners :: "listener list \<Rightarrow> state \<Rightarrow> outcome" where
  "runListeners [] st = Done st"
| "runListeners (l # ls) st = andThen (runListener l st) (runListeners ls)"

definition trayClick :: "state \<Rightarrow> outcome" where
  "trayClick st =
     (case tray st of
        None \<Rightarrow> Done st
      | Some t \<Rightarrow> runListeners (clickListeners t) st)"

text \<open>The \<open>click\<close> functions of the tray's context menu.\<close>

fun runClick :: "click \<Rightarrow> state \<Rightarrow> outcome" where
  "runClick OpenSolumaChat st =
     (let live = (case mainWindow st of None \<Rightarrow> False | Some w \<Rightarrow> \<not> isDestroyed w) in
      if \<not> live then
        (case serverHost (store st) of
           None \<Rightarrow> Done st
         | Some savedHost \<Rightarrow>
             if savedHost \<noteq> [] then Done (createMainWindow st savedHost) else Done st)
      else
        (case mainWindow st of
           None \<Rightarrow> Done st
         | Some w \<Rightarrow> Done (st\<lparr>mainWindow := Some (focus (show_window w))\<rparr>)))"
| "runClick ToggleCompanion st = toggleWindow st"
| "runClick (UpdateSetting key val) st = updateSetting st key val"

text \<open>
  \<open>app.whenReady().then(...)\<close>: \<open>initialize()\<close>, \<open>createTray()\<close>, then
  \<open>globalShortcut.register\<close>, whose result \<open>ret\<close> the operating system decides.
\<close>

definition whenReady :: "state \<Rightarrow> bool \<Rightarrow> outcome" where
  "whenReady st ret =
     andThen (createTray (initialize st)) (\<lambda>st1.
       Done (st1\<lparr>shortcutRegistered := ret,
                 trace := trace st1 @ [RegisterShortcut ''Option+Space'']\<rparr>))"

text \<open>
  \<open>ipcMain.on("submit-server-host")\<close>. \<open>response\<close> is the index of the button chosen
  in the warning dialog (0 is Continue), read only on the \<open>http://\<close> path, where the
  rest of the handler runs in the dialog's continuation.
\<close>

definition submit_server_host :: "state \<Rightarrow> string \<Rightarrow> nat \<Rightarrow> state" where
  "submit_server_host st host response =
     (if startsWith host ''http://'' then
        (let st1 = st\<lparr>trace := trace st @ [ShowMessageBox]\<rparr> in
         if response = 0 then
           createCompanionWindow
             (createMainWindow (st1\<lparr>store := (store st1)\<lparr>serverHost := Some host\<rparr>\<rparr>) host) host
         else st1\<lparr>trace := trace st1 @ [IpcSend ''clear-server-host-input'']\<rparr>)
      else
        createCompanionWindow
          (createMainWindow (st\<lparr>store := (store st)\<lparr>serverHost := Some host\<rparr>\<rparr>) host) host)"

text \<open>The state of the process before \<open>app.whenReady\<close>: every reference is \<open>null\<close>.\<close>

definition startup :: "store_contents \<Rightarrow> int \<Rightarrow> int \<Rightarrow> state" where
  "startup s w h =
     \<lparr>mainWindow = None, companionWindow = None, loginWindow = None, tray = None,
      store = s, workAreaWidth = w, workAreaHeight = h, shortcutRegistered = False,
      trace = []\<rparr>"

subsection \<open>Observers used to state properties\<close>

text \<open>The tray reference is \<open>null\<close> or refers to a tray that is not destroyed.\<close>

definition trayUsable :: "state \<Rightarrow> bool" where
  "trayUsable st = (case tray st of None \<Rightarrow> True | Some t \<Rightarrow> \<not> trayDestroyed t)"

text \<open>The radio items of a menu, submenu by submenu.\<close>

fun radios :: "menu_item list \<Rightarrow> submenu_item list" where
  "radios [] = []"
| "radios (Submenu label items # rest) = items @ radios rest"
| "radios (other # rest) = radios rest"

text \<open>The values a menu's radio items offer for one settings key.\<close>

fun choices :: "string \<Rightarrow> submenu_item list \<Rightarrow> string list" where
  "choices key [] = []"
| "choices key (Radio label c (UpdateSetting k v) # rest) =
     (if k = key then v # choices key rest else choices key rest)"
| "choices key (other # rest) = choices key rest"

text \<open>The values for one settings key whose radio items are checked.\<close>

fun checkedValues :: "string \<Rightarrow> submenu_item list \<Rightarrow> string list" where
  "checkedValues key [] = []"
| "checkedValues key (Radio label c (UpdateSetting k v) # rest) =
     (if k = key \<and> c then v # checkedValues key rest else checkedValues key rest)"
| "checkedValues key (other # rest) = checkedValues key rest"

text \<open>A radio item is checked exactly when the settings hold the value it selects.\<close>

fun radioMatches :: "(string \<rightharpoonup> string) \<Rightarrow> submenu_item \<Rightarrow> bool" where
  "radioMatches cfg (Radio label c (UpdateSetting k v)) = (c = (cfg k = Some v))"
| "radioMatches cfg other = False"

text \<open>One property of the \<open>settings\<close> object in the store; \<open>None\<close> when it is absent.\<close>

definition settingsField :: "state \<Rightarrow> string \<Rightarrow> string option" where
  "settingsField st k = (case settings (store st) of None \<Rightarrow> None | Some m \<Rightarrow> m k)"

subsection \<open>Concrete states used to exercise the theorems\<close>

definition emptyStore :: store_contents where
  "emptyStore = \<lparr>serverHost = None, computerId = None, settings = None\<rparr>"

definition hostStore :: store_contents where
  "hostStore = \<lparr>serverHost = Some ''chat.example.com'', computerId = None, settings = None\<rparr>"

text \<open>A companion window as \<open>createCompanionWindow\<close> leaves it: live and hidden.\<close>

definition hiddenWindow :: window where
  "hiddenWindow = (newBrowserWindow 400 600 False)\<lparr>loadedURL := ''https://chat.example.com''\<rparr>"

definition hiddenState :: state where
  "hiddenState = (startup hostStore 1920 1080)\<lparr>companionWindow := Some hiddenWindow\<rparr>"

text \<open>The same with a live tray icon, as \<open>createTray\<close> leaves it under the defaults.\<close>

definition liveTray :: tray_icon where
  "liveTray =
     newTray\<lparr>clickListeners := [ToggleWindowListener],
             rightClickListeners := [PopUpContextMenu (trayTemplate defaultSettings)]\<rparr>"

definition trayState :: state where
  "trayState = hiddenState\<lparr>tray := Some liveTray\<rparr>"

text \<open>The tray is still there and the settings now say \<open>never\<close>.\<close>

definition neverState :: state where
  "neverState =
     trayState\<lparr>store := hostStore\<lparr>settings := Some [''trayVisibility'' \<mapsto> ''never'']\<rparr>\<rparr>"

text \<open>The process after start-up with nothing persisted: login window and tray only.\<close>

definition loginState :: state where
  "loginState = state_of (whenReady (startup emptyStore 1920 1080) True)"

text \<open>The process after start-up with a persisted host: both windows and the tray.\<close>

definition runningState :: state where
  "runningState = state_of (whenReady (startup hostStore 1920 1080) True)"

section \<open>Auxiliary facts\<close>

subsection \<open>Rounding and the position switch\<close>

lemma Math_round_of_int: "Math_round (of_int a) = a"
  by (simp add: Math_round_def floor_unique)

lemma Math_round_pad: "Math_round (of_int a - of_int b - 20) = a - b - 20"
proof -
  have "(of_int a - of_int b - 20 :: rat) = of_int (a - b - 20)" by simp
  then show ?thesis by (simp only: Math_round_of_int)
qed

lemma Math_round_half: "Math_round (of_int a / 2 - of_int b / 2) = (a - b + 1) div 2"
proof -
  have "(of_int a / 2 - of_int b / 2 + 1 / 2 :: rat) = of_int (a - b + 1) / of_int 2"
    by (simp add: field_simps)
  then show ?thesis
    unfolding Math_round_def by (simp only: floor_divide_of_int_eq)
qed

lemma Math_round_tenth: "Math_round (of_int h * (1 / 10)) = (h + 5) div 10"
proof -
  have "(of_int h * (1 / 10) + 1 / 2 :: rat) = of_int (h + 5) / of_int 10"
    by (simp add: field_simps)
  then show ?thesis
    unfolding Math_round_def by (simp only: floor_divide_of_int_eq)
qed

text \<open>\<open>Math_round\<close> returns an integer nearest to its argument.\<close>

lemma Math_round_nearest: "\<bar>of_int (Math_round q) - q\<bar> \<le> 1 / 2"
  unfolding Math_round_def by linarith

text \<open>The switch of \<open>getWindowPosition\<close> with every \<open>Math.round\<close> carried out.\<close>

lemma positionSwitch_eval:
  "positionSwitch pos ww wh sw sh =
     (if pos = Some ''bottom-center'' then ((sw - ww + 1) div 2, sh - wh - 20)
      else if pos = Some ''bottom-left'' then (20, sh - wh - 20)
      else if pos = Some ''bottom-right'' then (sw - ww - 20, sh - wh - 20)
      else if pos = Some ''center'' then ((sw - ww + 1) div 2, (sh - wh + 1) div 2)
      else if pos = Some ''top-right'' then (sw - ww - 20, (sh + 5) div 10)
      else ((sw - ww + 1) div 2, (sh + 5) div 10))"
  unfolding positionSwitch_def
  by (simp only: Math_round_pad Math_round_half Math_round_tenth)

lemma half_bounds: "(0::int) \<le> d \<Longrightarrow> 0 \<le> (d + 1) div 2 \<and> (d + 1) div 2 \<le> d"
  by presburger

lemma tenth_nonneg: "(0::int) \<le> h \<Longrightarrow> 0 \<le> (h + 5) div 10"
  by presburger

lemma orElse_None [simp]: "orElse None b = b"
  by (simp add: orElse_def)

subsection \<open>createTray\<close>

lemma andThen_Done [simp]: "andThen r Done = r"
  by (cases r) simp_all

lemma createTray_never_none:
  "traySettings (store st) ''trayVisibility'' = Some ''never'' \<Longrightarrow> tray st = None
   \<Longrightarrow> createTray st = Done st"
  by (simp add: createTray_def)

lemma createTray_never_live:
  "traySettings (store st) ''trayVisibility'' = Some ''never'' \<Longrightarrow> tray st = Some t
   \<Longrightarrow> \<not> trayDestroyed t
   \<Longrightarrow> createTray st = Done (st\<lparr>tray := None, trace := trace st @ [TrayDestroy]\<rparr>)"
  by (simp add: createTray_def)

lemma createTray_shown_none:
  "traySettings (store st) ''trayVisibility'' \<noteq> Some ''never'' \<Longrightarrow> tray st = None
   \<Longrightarrow> createTray st =
       Done (st\<lparr>tray := Some (newTray\<lparr>contextMenu := None,
                     clickListeners := [ToggleWindowListener],
                     rightClickListeners :=
                       [PopUpContextMenu (trayTemplate (traySettings (store st)))]\<rparr>),
               trace := trace st @ [BuildTrayMenu, NewTray]\<rparr>)"
  by (simp add: createTray_def attachHandlers_def newTray_def Let_def)

lemma createTray_shown_live:
  "traySettings (store st) ''trayVisibility'' \<noteq> Some ''never'' \<Longrightarrow> tray st = Some t
   \<Longrightarrow> \<not> trayDestroyed t
   \<Longrightarrow> createTray st =
       Done (st\<lparr>tray := Some (t\<lparr>contextMenu := None,
                     clickListeners := [ToggleWindowListener],
                     rightClickListeners :=
                       [PopUpContextMenu (trayTemplate (traySettings (store st)))]\<rparr>),
               trace := trace st @ [BuildTrayMenu]\<rparr>)"
  by (simp add: createTray_def attachHandlers_def Let_def)

lemma radios_match: "list_all (radioMatches cfg) (radios (trayTemplate cfg))"
  by (simp add: trayTemplate_def)

lemma radios_trayTemplate:
  "radios (trayTemplate cfg) =
     [Radio ''Bottom Center'' (cfg ''position'' = Some ''bottom-center'')
        (UpdateSetting ''position'' ''bottom-center''),
      Radio ''Bottom Left'' (cfg ''position'' = Some ''bottom-left'')
        (UpdateSetting ''position'' ''bottom-left''),
      Radio ''Bottom Right'' (cfg ''position'' = Some ''bottom-right'')
        (UpdateSetting ''position'' ''bottom-right''),
      Radio ''Always'' (cfg ''trayVisibility'' = Some ''always'')
        (UpdateSetting ''trayVisibility'' ''always''),
      Radio ''When app is running'' (cfg ''trayVisibility'' = Some ''running'')
        (UpdateSetting ''trayVisibility'' ''running''),
      Radio ''Never'' (cfg ''trayVisibility'' = Some ''never'')
        (UpdateSetting ''trayVisibility'' ''never'')]"
  by (simp add: trayTemplate_def)

lemma checkedValues_matching:
  "list_all (radioMatches cfg) rs \<Longrightarrow>
   set (checkedValues key rs) = {v \<in> set (choices key rs). cfg key = Some v}"
proof (induction rs)
  case Nil
  then show ?case by simp
next
  case (Cons r rs)
  obtain label c a where r: "r = Radio label c a" by (cases r)
  show ?case
  proof (cases a)
    case (UpdateSetting k v)
    with Cons r show ?thesis by auto
  next
    case OpenSolumaChat
    with Cons r show ?thesis by simp
  next
    case ToggleCompanion
    with Cons r show ?thesis by simp
  qed
qed

lemma checkedValues_trayTemplate:
  "set (checkedValues key (radios (trayTemplate cfg))) =
     {v \<in> set (choices key (radios (trayTemplate cfg))). cfg key = Some v}"
  using radios_match by (rule checkedValues_matching)

lemma checkedValues_always:
  "cfg ''trayVisibility'' = Some ''always'' \<Longrightarrow>
   checkedValues ''trayVisibility'' (radios (trayTemplate cfg)) = [''always'']"
  by (simp add: radios_trayTemplate)

lemma createTray_frame:
  "companionWindow (state_of (createTray st)) = companionWindow st"
  "mainWindow (state_of (createTray st)) = mainWindow st"
  "store (state_of (createTray st)) = store st"
  "workAreaWidth (state_of (createTray st)) = workAreaWidth st"
  "workAreaHeight (state_of (createTray st)) = workAreaHeight st"
  by (simp_all add: createTray_def attachHandlers_def Let_def split: option.splits)

lemma createTray_Done:
  "trayUsable st \<Longrightarrow> createTray st = Done (state_of (createTray st))"
  by (simp add: trayUsable_def createTray_def attachHandlers_def newTray_def Let_def
        split: option.splits)

lemma createTray_trace:
  assumes "trayUsable st"
  shows "trace (state_of (createTray st)) =
     trace st @
       (if traySettings (store st) ''trayVisibility'' = Some ''never''
        then (if tray st = None then [] else [TrayDestroy])
        else (if tray st = None then [BuildTrayMenu, NewTray] else [BuildTrayMenu]))"
proof (cases "tray st")
  case None
  then show ?thesis
    by (cases "traySettings (store st) ''trayVisibility'' = Some ''never''")
       (simp_all add: createTray_never_none createTray_shown_none)
next
  case (Some t)
  with assms have "\<not> trayDestroyed t" by (simp add: trayUsable_def)
  with Some show ?thesis
    by (cases "traySettings (store st) ''trayVisibility'' = Some ''never''")
       (simp_all add: createTray_never_live createTray_shown_live)
qed

subsection \<open>showWindow and updateSetting\<close>

lemma showWindow_live:
  assumes "companionWindow st = Some w" "\<not> isDestroyed w"
  shows "showWindow st =
     Done (st\<lparr>companionWindow := Some (w\<lparr>position :=
              Some (positionSwitch (positionSettings (store st) ''position'')
                      (width w) (height w) (workAreaWidth st) (workAreaHeight st)),
            isVisible := True, isFocused := True\<rparr>)\<rparr>)"
  using assms
  by (simp add: showWindow_def getWindowPosition_def setPosition_def onCompanion_def
        show_window_def focus_def)

lemma setPosition_store: "store (state_of (setPosition st p)) = store st"
  by (simp add: setPosition_def split: option.splits)

lemma updateSetting_store:
  "store (state_of (updateSetting st key val)) =
     (store st)\<lparr>settings :=
        Some ((case settings (store st) of Some m \<Rightarrow> m | None \<Rightarrow> Map.empty)(key \<mapsto> val))\<rparr>"
proof -
  define st1 where
    "st1 = st\<lparr>store := (store st)\<lparr>settings :=
        Some ((case settings (store st) of Some m \<Rightarrow> m | None \<Rightarrow> Map.empty)(key \<mapsto> val))\<rparr>\<rparr>"
  have u: "updateSetting st key val =
      andThen (createTray st1) (\<lambda>st2.
         if key = ''position'' \<and> companionWindow st2 \<noteq> None then
           (case getWindowPosition st2 (Some val) of
              Inl e \<Rightarrow> Thrown e st2
            | Inr p \<Rightarrow> setPosition st2 p)
         else Done st2)"
    by (simp add: updateSetting_def st1_def Let_def)
  have f: "store (state_of (createTray st1)) = store st1"
    by (rule createTray_frame)
  have "store (state_of (updateSetting st key val)) = store st1"
  proof (cases "createTray st1")
    case (Done st2)
    with f have "store st2 = store st1" by simp
    then show ?thesis
      unfolding u Done by (simp add: setPosition_store split: sum.splits)
  next
    case (Thrown e st2)
    with f have "store st2 = store st1" by simp
    then show ?thesis
      unfolding u Thrown by simp
  qed
  then show ?thesis by (simp add: st1_def)
qed

lemma updateSetting_no_position:
  assumes "trayUsable st" and "key \<noteq> ''position'' \<or> companionWindow st = None"
  shows "updateSetting st key val =
     createTray (st\<lparr>store := (store st)\<lparr>settings :=
        Some ((case settings (store st) of Some m \<Rightarrow> m | None \<Rightarrow> Map.empty)(key \<mapsto> val))\<rparr>\<rparr>)"
proof -
  define st1 where
    "st1 = st\<lparr>store := (store st)\<lparr>settings :=
        Some ((case settings (store st) of Some m \<Rightarrow> m | None \<Rightarrow> Map.empty)(key \<mapsto> val))\<rparr>\<rparr>"
  define st2 where "st2 = state_of (createTray st1)"
  have t: "trayUsable st1" using assms(1) by (simp add: trayUsable_def st1_def)
  have d: "createTray st1 = Done st2"
    unfolding st2_def using t by (rule createTray_Done)
  have c: "companionWindow st2 = companionWindow st"
    by (simp add: st2_def createTray_frame st1_def)
  have "updateSetting st key val =
      andThen (createTray st1) (\<lambda>st2.
         if key = ''position'' \<and> companionWindow st2 \<noteq> None then
           (case getWindowPosition st2 (Some val) of
              Inl e \<Rightarrow> Thrown e st2
            | Inr p \<Rightarrow> setPosition st2 p)
         else Done st2)"
    by (simp add: updateSetting_def st1_def Let_def)
  also have "\<dots> = createTray st1"
    using assms(2) by (auto simp: d c)
  finally show ?thesis by (simp add: st1_def)
qed

lemma updateSetting_position_live:
  assumes "trayUsable st" and "companionWindow st = Some w" and "\<not> isDestroyed w"
  shows "updateSetting st ''position'' val =
     Done ((state_of (createTray (st\<lparr>store := (store st)\<lparr>settings :=
        Some ((case settings (store st) of Some m \<Rightarrow> m | None \<Rightarrow> Map.empty)
                (''position'' \<mapsto> val))\<rparr>\<rparr>)))
       \<lparr>companionWindow := Some (w\<lparr>position :=
           Some (positionSwitch (Some val) (width w) (height w)
                   (workAreaWidth st) (workAreaHeight st))\<rparr>)\<rparr>)"
proof -
  define st1 where
    "st1 = st\<lparr>store := (store st)\<lparr>settings :=
        Some ((case settings (store st) of Some m \<Rightarrow> m | None \<Rightarrow> Map.empty)
                (''position'' \<mapsto> val))\<rparr>\<rparr>"
  define st2 where "st2 = state_of (createTray st1)"
  have t: "trayUsable st1" using assms(1) by (simp add: trayUsable_def st1_def)
  have d: "createTray st1 = Done st2"
    unfolding st2_def using t by (rule createTray_Done)
  have c: "companionWindow st2 = Some w" "workAreaWidth st2 = workAreaWidth st"
     "workAreaHeight st2 = workAreaHeight st"
     "positionSettings (store st2) ''position'' = Some val"
    using assms(2) by (simp_all add: st2_def createTray_frame st1_def positionSettings_def)
  have g: "getWindowPosition st2 (Some val) =
      Inr (positionSwitch (Some val) (width w) (height w) (workAreaWidth st) (workAreaHeight st))"
    using assms(3) by (simp add: getWindowPosition_def c orElse_def)
  have "updateSetting st ''position'' val =
      andThen (createTray st1) (\<lambda>st2.
         if companionWindow st2 \<noteq> None then
           (case getWindowPosition st2 (Some val) of
              Inl e \<Rightarrow> Thrown e st2
            | Inr p \<Rightarrow> setPosition st2 p)
         else Done st2)"
    by (simp add: updateSetting_def st1_def Let_def)
  also have "\<dots> = setPosition st2 (positionSwitch (Some val) (width w) (height w)
                        (workAreaWidth st) (workAreaHeight st))"
    by (simp add: d c g)
  also have "\<dots> = Done (st2\<lparr>companionWindow := Some (w\<lparr>position :=
           Some (positionSwitch (Some val) (width w) (height w)
                   (workAreaWidth st) (workAreaHeight st))\<rparr>)\<rparr>)"
    using assms(3) by (simp add: setPosition_def c)
  finally show ?thesis by (simp add: st2_def st1_def)
qed

lemma updateSetting_tray:
  assumes "trayUsable st"
  shows "(traySettings (store (state_of (updateSetting st key val))) ''trayVisibility''
            = Some ''never'' \<longrightarrow>
          tray (state_of (updateSetting st key val)) = None)
       \<and> (traySettings (store (state_of (updateSetting st key val))) ''trayVisibility''
            \<noteq> Some ''never'' \<longrightarrow>
          map_option rightClickListeners (tray (state_of (updateSetting st key val))) =
            Some [PopUpContextMenu (trayTemplate
                    (traySettings (store (state_of (updateSetting st key val)))))])"
proof -
  define st1 where
    "st1 = st\<lparr>store := (store st)\<lparr>settings :=
        Some ((case settings (store st) of Some m \<Rightarrow> m | None \<Rightarrow> Map.empty)(key \<mapsto> val))\<rparr>\<rparr>"
  define st2 where "st2 = state_of (createTray st1)"
  have s: "store (state_of (updateSetting st key val)) = store st1"
    by (simp add: updateSetting_store st1_def)
  have t: "trayUsable st1" using assms by (simp add: trayUsable_def st1_def)
  have u: "updateSetting st key val =
      andThen (createTray st1) (\<lambda>st2.
         if key = ''position'' \<and> companionWindow st2 \<noteq> None then
           (case getWindowPosition st2 (Some val) of
              Inl e \<Rightarrow> Thrown e st2
            | Inr p \<Rightarrow> setPosition st2 p)
         else Done st2)"
    by (simp add: updateSetting_def st1_def Let_def)
  have d: "createTray st1 = Done st2"
    unfolding st2_def using t by (rule createTray_Done)
  have tr: "tray (state_of (updateSetting st key val)) = tray st2"
    unfolding u d
    by (simp add: getWindowPosition_def setPosition_def split: option.splits)
  have n: "traySettings (store st1) ''trayVisibility'' = Some ''never'' \<Longrightarrow> tray st2 = None"
    using t unfolding st2_def
    by (cases "tray st1")
       (simp_all add: createTray_never_none createTray_never_live trayUsable_def)
  have m: "traySettings (store st1) ''trayVisibility'' \<noteq> Some ''never'' \<Longrightarrow>
      map_option rightClickListeners (tray st2) =
        Some [PopUpContextMenu (trayTemplate (traySettings (store st1)))]"
    using t unfolding st2_def
    by (cases "tray st1")
       (simp_all add: createTray_shown_none createTray_shown_live trayUsable_def)
  show ?thesis using n m by (simp add: s tr)
qed

lemma updateSetting_never_live:
  assumes "tray st = Some t" and "\<not> trayDestroyed t"
  shows "updateSetting st ''trayVisibility'' ''never'' =
     Done (st\<lparr>store := (store st)\<lparr>settings :=
             Some ((case settings (store st) of Some m \<Rightarrow> m | None \<Rightarrow> Map.empty)
                     (''trayVisibility'' \<mapsto> ''never''))\<rparr>,
             tray := None, trace := trace st @ [TrayDestroy]\<rparr>)"
proof -
  define st1 where
    "st1 = st\<lparr>store := (store st)\<lparr>settings :=
        Some ((case settings (store st) of Some m \<Rightarrow> m | None \<Rightarrow> Map.empty)
                (''trayVisibility'' \<mapsto> ''never''))\<rparr>\<rparr>"
  have u: "trayUsable st" using assms by (simp add: trayUsable_def)
  have n: "traySettings (store st1) ''trayVisibility'' = Some ''never''" "tray st1 = Some t"
    using assms(1) by (simp_all add: st1_def traySettings_def)
  have "updateSetting st ''trayVisibility'' ''never'' = createTray st1"
    unfolding st1_def using u by (intro updateSetting_no_position) simp_all
  also have "\<dots> = Done (st1\<lparr>tray := None, trace := trace st1 @ [TrayDestroy]\<rparr>)"
    using n assms(2) by (rule createTray_never_live)
  finally show ?thesis by (simp add: st1_def)
qed

subsection \<open>The tray menu\<close>

lemma choices_trayTemplate:
  "choices ''position'' (radios (trayTemplate cfg)) =
     [''bottom-center'', ''bottom-left'', ''bottom-right'']"
  "choices ''trayVisibility'' (radios (trayTemplate cfg)) = [''always'', ''running'', ''never'']"
  by (simp_all add: trayTemplate_def)

lemma items_trayTemplate:
  "Item ''Open Soluma Chat'' OpenSolumaChat \<in> set (trayTemplate cfg)"
  "Item ''Open Companion'' ToggleCompanion \<in> set (trayTemplate cfg)"
  "RoleItem ''Quit'' ''quit'' \<in> set (trayTemplate cfg)"
  by (simp_all add: trayTemplate_def)

lemma openSolumaChat_create:
  "mainWindow st = None \<Longrightarrow> serverHost (store st) = Some h \<Longrightarrow> h \<noteq> []
   \<Longrightarrow> runClick OpenSolumaChat st = Done (createMainWindow st h)"
  by simp

lemma openSolumaChat_show:
  "mainWindow st = Some mw \<Longrightarrow> \<not> isDestroyed mw
   \<Longrightarrow> runClick OpenSolumaChat st =
         Done (st\<lparr>mainWindow := Some (mw\<lparr>isVisible := True, isFocused := True\<rparr>)\<rparr>)"
  by (simp add: show_window_def focus_def)

lemma openSolumaChat_recreate:
  "mainWindow st = Some mw \<Longrightarrow> isDestroyed mw \<Longrightarrow> serverHost (store st) = Some h \<Longrightarrow> h \<noteq> []
   \<Longrightarrow> runClick OpenSolumaChat st = Done (createMainWindow st h)"
  by simp

lemma openSolumaChat_no_host:
  "mainWindow st = None \<or> (mainWindow st = Some mw \<and> isDestroyed mw)
   \<Longrightarrow> serverHost (store st) = None \<or> serverHost (store st) = Some []
   \<Longrightarrow> runClick OpenSolumaChat st = Done st"
  by auto

subsection \<open>Start-up and login submission\<close>

lemma hostURL_example: "hostURL ''chat.example.com'' = ''https://chat.example.com''"
  by (simp add: hostURL_def startsWith_def)

lemma initialize_host:
  "serverHost (store st) = Some h \<Longrightarrow> h \<noteq> []
   \<Longrightarrow> initialize st =
       st\<lparr>companionWindow := Some ((newBrowserWindow 400 600 False)\<lparr>loadedURL := hostURL h\<rparr>),
          mainWindow := Some ((newBrowserWindow 800 800 True)\<lparr>loadedURL := hostURL h\<rparr>),
          trace := trace st @ [NewBrowserWindow Companion (hostURL h),
                               NewBrowserWindow Main (hostURL h), SetApplicationMenu h]\<rparr>"
  by (simp add: initialize_def createMainWindow_def createCompanionWindow_def buildMenu_def)

lemma initialize_login:
  "serverHost (store st) = None
   \<Longrightarrow> initialize st =
       st\<lparr>loginWindow := Some ((newBrowserWindow 600 800 True)\<lparr>loadedURL := ''login.html''\<rparr>),
          trace := trace st @ [NewBrowserWindow Login ''login.html'']\<rparr>"
  by (simp add: initialize_def createLoginWindow_def)

lemma submit_proceeds:
  assumes "\<not> startsWith host ''http://'' \<or> response = 0"
  shows "submit_server_host st host response =
     st\<lparr>store := (store st)\<lparr>serverHost := Some host\<rparr>,
        mainWindow := Some ((newBrowserWindow 800 800 True)\<lparr>loadedURL := hostURL host\<rparr>),
        companionWindow := Some ((newBrowserWindow 400 600 False)\<lparr>loadedURL := hostURL host\<rparr>),
        trace := trace st @ (if startsWith host ''http://'' then [ShowMessageBox] else [])
                 @ [NewBrowserWindow Main (hostURL host), SetApplicationMenu host,
                    NewBrowserWindow Companion (hostURL host)]\<rparr>"
  using assms
  by (auto simp: submit_server_host_def createMainWindow_def createCompanionWindow_def
        buildMenu_def Let_def)

lemma submit_cancelled:
  assumes "startsWith host ''http://''" and "response \<noteq> 0"
  shows "submit_server_host st host response =
     st\<lparr>trace := trace st @ [ShowMessageBox, IpcSend ''clear-server-host-input'']\<rparr>"
  using assms by (simp add: submit_server_host_def Let_def)

subsection \<open>The concrete states\<close>

lemma hiddenState_simps:
  "tray hiddenState = None"
  "companionWindow hiddenState = Some hiddenWindow"
  "store hiddenState = hostStore"
  "trace hiddenState = []"
  "workAreaWidth hiddenState = 1920"
  "workAreaHeight hiddenState = 1080"
  by (simp_all add: hiddenState_def startup_def)

lemma hiddenWindow_simps:
  "\<not> isDestroyed hiddenWindow" "\<not> isVisible hiddenWindow" "position hiddenWindow = None"
  "width hiddenWindow = 400" "height hiddenWindow = 600"
  by (simp_all add: hiddenWindow_def newBrowserWindow_def)

lemma trayUsable_hiddenState: "trayUsable hiddenState"
  by (simp add: trayUsable_def hiddenState_simps)

lemma traySettings_hostStore: "traySettings hostStore = defaultSettings"
  by (simp add: traySettings_def hostStore_def)

lemma defaultSettings_tray: "defaultSettings ''trayVisibility'' = Some ''always''"
  by (simp add: defaultSettings_def)

lemma neverState_simps:
  "tray neverState = Some liveTray"
  "traySettings (store neverState) ''trayVisibility'' = Some ''never''"
  "trace neverState = []"
  by (simp_all add: neverState_def trayState_def hiddenState_def startup_def traySettings_def)

lemma liveTray_live: "\<not> trayDestroyed liveTray"
  by (simp add: liveTray_def newTray_def)

lemma liveTray_clicks: "clickListeners liveTray = [ToggleWindowListener]"
  by (simp add: liveTray_def)

lemma liveTray_eq:
  "newTray\<lparr>contextMenu := None, clickListeners := [ToggleWindowListener],
           rightClickListeners := [PopUpContextMenu (trayTemplate defaultSettings)]\<rparr> = liveTray"
  by (simp add: liveTray_def newTray_def)

lemma startup_simps:
  "serverHost (store (startup hostStore w h)) = Some ''chat.example.com''"
  "serverHost (store (startup emptyStore w h)) = None"
  "traySettings (store (startup hostStore w h)) = defaultSettings"
  "traySettings (store (startup emptyStore w h)) = defaultSettings"
  "tray (startup s w h) = None"
  "trace (startup s w h) = []"
  "trayUsable (startup s w h)"
  by (simp_all add: startup_def hostStore_def emptyStore_def traySettings_def trayUsable_def)

lemma runningState_eq:
  "whenReady (startup hostStore 1920 1080) True = Done runningState"
  "runningState =
     \<lparr>mainWindow = Some ((newBrowserWindow 800 800 True)\<lparr>loadedURL := ''https://chat.example.com''\<rparr>),
      companionWindow = Some hiddenWindow, loginWindow = None, tray = Some liveTray,
      store = hostStore, workAreaWidth = 1920, workAreaHeight = 1080,
      shortcutRegistered = True,
      trace = [NewBrowserWindow Companion ''https://chat.example.com'',
               NewBrowserWindow Main ''https://chat.example.com'',
               SetApplicationMenu ''chat.example.com'', BuildTrayMenu, NewTray,
               RegisterShortcut ''Option+Space'']\<rparr>"
proof -
  have i: "initialize (startup hostStore 1920 1080) =
      (startup hostStore 1920 1080)
        \<lparr>companionWindow := Some hiddenWindow,
         mainWindow := Some ((newBrowserWindow 800 800 True)\<lparr>loadedURL := ''https://chat.example.com''\<rparr>),
         trace := [NewBrowserWindow Companion ''https://chat.example.com'',
                   NewBrowserWindow Main ''https://chat.example.com'',
                   SetApplicationMenu ''chat.example.com'']\<rparr>"
    by (simp add: initialize_host [where h = "''chat.example.com''"] startup_simps
          hostURL_example hiddenWindow_def)
  have c: "createTray (initialize (startup hostStore 1920 1080)) =
      Done ((startup hostStore 1920 1080)
        \<lparr>companionWindow := Some hiddenWindow,
         mainWindow := Some ((newBrowserWindow 800 800 True)\<lparr>loadedURL := ''https://chat.example.com''\<rparr>),
         tray := Some liveTray,
         trace := [NewBrowserWindow Companion ''https://chat.example.com'',
                   NewBrowserWindow Main ''https://chat.example.com'',
                   SetApplicationMenu ''chat.example.com'', BuildTrayMenu, NewTray]\<rparr>)"
    unfolding i
    by (subst createTray_shown_none)
       (simp_all add: startup_simps defaultSettings_tray liveTray_eq)
  show "whenReady (startup hostStore 1920 1080) True = Done runningState"
    by (simp add: runningState_def whenReady_def c)
  show "runningState =
     \<lparr>mainWindow = Some ((newBrowserWindow 800 800 True)\<lparr>loadedURL := ''https://chat.example.com''\<rparr>),
      companionWindow = Some hiddenWindow, loginWindow = None, tray = Some liveTray,
      store = hostStore, workAreaWidth = 1920, workAreaHeight = 1080,
      shortcutRegistered = True,
      trace = [NewBrowserWindow Companion ''https://chat.example.com'',
               NewBrowserWindow Main ''https://chat.example.com'',
               SetApplicationMenu ''chat.example.com'', BuildTrayMenu, NewTray,
               RegisterShortcut ''Option+Space'']\<rparr>"
    by (simp add: runningState_def whenReady_def c) (simp add: startup_def)
qed

lemma runningState_simps:
  "companionWindow runningState = Some hiddenWindow"
  "tray runningState = Some liveTray"
  "store runningState = hostStore"
  "workAreaWidth runningState = 1920"
  "workAreaHeight runningState = 1080"
  "mainWindow runningState =
     Some ((newBrowserWindow 800 800 True)\<lparr>loadedURL := ''https://chat.example.com''\<rparr>)"
  by (simp_all add: runningState_eq(2))

lemma trayUsable_runningState: "trayUsable runningState"
  by (simp add: trayUsable_def runningState_simps liveTray_live)

lemma loginState_eq:
  "whenReady (startup emptyStore 1920 1080) True = Done loginState"
  "loginState =
     \<lparr>mainWindow = None, companionWindow = None,
      loginWindow = Some ((newBrowserWindow 600 800 True)\<lparr>loadedURL := ''login.html''\<rparr>),
      tray = Some liveTray,
      store = emptyStore, workAreaWidth = 1920, workAreaHeight = 1080,
      shortcutRegistered = True,
      trace = [NewBrowserWindow Login ''login.html'', BuildTrayMenu, NewTray,
               RegisterShortcut ''Option+Space'']\<rparr>"
proof -
  have i: "initialize (startup emptyStore 1920 1080) =
      (startup emptyStore 1920 1080)
        \<lparr>loginWindow := Some ((newBrowserWindow 600 800 True)\<lparr>loadedURL := ''login.html''\<rparr>),
         trace := [NewBrowserWindow Login ''login.html'']\<rparr>"
    by (simp add: initialize_login startup_simps)
  have c: "createTray (initialize (startup emptyStore 1920 1080)) =
      Done ((startup emptyStore 1920 1080)
        \<lparr>loginWindow := Some ((newBrowserWindow 600 800 True)\<lparr>loadedURL := ''login.html''\<rparr>),
         tray := Some liveTray,
         trace := [NewBrowserWindow Login ''login.html'', BuildTrayMenu, NewTray]\<rparr>)"
    unfolding i
    by (subst createTray_shown_none)
       (simp_all add: startup_simps defaultSettings_tray liveTray_eq)
  show "whenReady (startup emptyStore 1920 1080) True = Done loginState"
    by (simp add: loginState_def whenReady_def c)
  show "loginState =
     \<lparr>mainWindow = None, companionWindow = None,
      loginWindow = Some ((newBrowserWindow 600 800 True)\<lparr>loadedURL := ''login.html''\<rparr>),
      tray = Some liveTray,
      store = emptyStore, workAreaWidth = 1920, workAreaHeight = 1080,
      shortcutRegistered = True,
      trace = [NewBrowserWindow Login ''login.html'', BuildTrayMenu, NewTray,
               RegisterShortcut ''Option+Space'']\<rparr>"
    by (simp add: loginState_def whenReady_def c) (simp add: startup_def)
qed

lemma loginState_simps:
  "companionWindow loginState = None"
  "tray loginState = Some liveTray"
  by (simp_all add: loginState_eq(2))

section \<open>Properties\<close>

subsection \<open>The companion window toggle\<close>

text \<open>
  C1. On a live companion window \<open>toggleWindow\<close> hides it when it is visible and
  focused, focuses it without hiding when it is visible and unfocused, and runs
  \<open>showWindow\<close> when it is hidden, which places it at the resolved position, shows
  and focuses it. Two calls in a row from the hidden state show and then hide: the
  window ends hidden, differing from the start only in its stored position and focus flag.
\<close>

theorem toggleWindow_cases:
  assumes "companionWindow st = Some w" and "\<not> isDestroyed w"
  shows "(isVisible w \<and> isFocused w \<longrightarrow>
            toggleWindow st =
              Done (st\<lparr>companionWindow := Some (w\<lparr>isVisible := False, isFocused := False\<rparr>)\<rparr>))
       \<and> (isVisible w \<and> \<not> isFocused w \<longrightarrow>
            toggleWindow st = Done (st\<lparr>companionWindow := Some (w\<lparr>isFocused := True\<rparr>)\<rparr>))
       \<and> (\<not> isVisible w \<longrightarrow>
            toggleWindow st = showWindow st
            \<and> showWindow st =
                Done (st\<lparr>companionWindow := Some (w\<lparr>position :=
                        Some (positionSwitch (positionSettings (store st) ''position'')
                                (width w) (height w) (workAreaWidth st) (workAreaHeight st)),
                      isVisible := True, isFocused := True\<rparr>)\<rparr>)
            \<and> andThen (toggleWindow st) toggleWindow =
                Done (st\<lparr>companionWindow := Some (w\<lparr>position :=
                        Some (positionSwitch (positionSettings (store st) ''position'')
                                (width w) (height w) (workAreaWidth st) (workAreaHeight st)),
                      isVisible := False, isFocused := False\<rparr>)\<rparr>))"
proof (intro conjI impI)
  assume "isVisible w \<and> isFocused w"
  then show "toggleWindow st =
      Done (st\<lparr>companionWindow := Some (w\<lparr>isVisible := False, isFocused := False\<rparr>)\<rparr>)"
    using assms by (simp add: toggleWindow_def onCompanion_def hide_def)
next
  assume "isVisible w \<and> \<not> isFocused w"
  then show "toggleWindow st = Done (st\<lparr>companionWindow := Some (w\<lparr>isFocused := True\<rparr>)\<rparr>)"
    using assms by (simp add: toggleWindow_def onCompanion_def focus_def)
next
  assume h: "\<not> isVisible w"
  then show t1: "toggleWindow st = showWindow st"
    using assms by (simp add: toggleWindow_def)
  show s1: "showWindow st =
      Done (st\<lparr>companionWindow := Some (w\<lparr>position :=
              Some (positionSwitch (positionSettings (store st) ''position'')
                      (width w) (height w) (workAreaWidth st) (workAreaHeight st)),
            isVisible := True, isFocused := True\<rparr>)\<rparr>)"
    using assms by (rule showWindow_live)
  show "andThen (toggleWindow st) toggleWindow =
      Done (st\<lparr>companionWindow := Some (w\<lparr>position :=
              Some (positionSwitch (positionSettings (store st) ''position'')
                      (width w) (height w) (workAreaWidth st) (workAreaHeight st)),
            isVisible := False, isFocused := False\<rparr>)\<rparr>)"
  proof -
    have "andThen (toggleWindow st) toggleWindow =
        toggleWindow (st\<lparr>companionWindow := Some (w\<lparr>position :=
              Some (positionSwitch (positionSettings (store st) ''position'')
                      (width w) (height w) (workAreaWidth st) (workAreaHeight st)),
            isVisible := True, isFocused := True\<rparr>)\<rparr>)"
      by (simp only: t1 s1 andThen.simps)
    also have "\<dots> = Done (st\<lparr>companionWindow := Some (w\<lparr>position :=
              Some (positionSwitch (positionSettings (store st) ''position'')
                      (width w) (height w) (workAreaWidth st) (workAreaHeight st)),
            isVisible := False, isFocused := False\<rparr>)\<rparr>)"
      using assms by (simp add: toggleWindow_def onCompanion_def hide_def)
    finally show ?thesis .
  qed
qed

theorem toggleWindow_cases_witness:
  "companionWindow hiddenState = Some hiddenWindow
   \<and> \<not> isDestroyed hiddenWindow \<and> \<not> isVisible hiddenWindow
   \<and> toggleWindow hiddenState =
       Done (hiddenState\<lparr>companionWindow := Some (hiddenWindow\<lparr>position := Some (760, 108),
                                     isVisible := True, isFocused := True\<rparr>)\<rparr>)
   \<and> andThen (toggleWindow hiddenState) toggleWindow =
       Done (hiddenState\<lparr>companionWindow := Some (hiddenWindow\<lparr>position := Some (760, 108),
                                     isVisible := False, isFocused := False\<rparr>)\<rparr>)
   \<and> toggleWindow (hiddenState\<lparr>companionWindow :=
          Some (hiddenWindow\<lparr>isVisible := True, isFocused := True\<rparr>)\<rparr>) =
       Done (hiddenState\<lparr>companionWindow :=
          Some (hiddenWindow\<lparr>isVisible := False, isFocused := False\<rparr>)\<rparr>)
   \<and> toggleWindow (hiddenState\<lparr>companionWindow :=
          Some (hiddenWindow\<lparr>isVisible := True, isFocused := False\<rparr>)\<rparr>) =
       Done (hiddenState\<lparr>companionWindow :=
          Some (hiddenWindow\<lparr>isVisible := True, isFocused := True\<rparr>)\<rparr>)"
proof -
  have c: "companionWindow hiddenState = Some hiddenWindow"
    by (simp add: hiddenState_def)
  have d: "\<not> isDestroyed hiddenWindow" "\<not> isVisible hiddenWindow"
    by (simp_all add: hiddenWindow_def newBrowserWindow_def)
  have p: "positionSwitch (positionSettings (store hiddenState) ''position'')
             (width hiddenWindow) (height hiddenWindow)
             (workAreaWidth hiddenState) (workAreaHeight hiddenState) = (760, 108)"
    by (simp add: hiddenState_def hiddenWindow_def newBrowserWindow_def startup_def
          hostStore_def positionSettings_def positionSwitch_eval)
  have v: "companionWindow (hiddenState\<lparr>companionWindow :=
             Some (hiddenWindow\<lparr>isVisible := True, isFocused := True\<rparr>)\<rparr>) =
           Some (hiddenWindow\<lparr>isVisible := True, isFocused := True\<rparr>)"
          "companionWindow (hiddenState\<lparr>companionWindow :=
             Some (hiddenWindow\<lparr>isVisible := True, isFocused := False\<rparr>)\<rparr>) =
           Some (hiddenWindow\<lparr>isVisible := True, isFocused := False\<rparr>)"
    by simp_all
  have w: "\<not> isDestroyed (hiddenWindow\<lparr>isVisible := True, isFocused := True\<rparr>)"
          "\<not> isDestroyed (hiddenWindow\<lparr>isVisible := True, isFocused := False\<rparr>)"
    using d(1) by simp_all
  note hidden = toggleWindow_cases [OF c d(1), unfolded p]
  have a: "toggleWindow hiddenState =
       Done (hiddenState\<lparr>companionWindow := Some (hiddenWindow\<lparr>position := Some (760, 108),
                                     isVisible := True, isFocused := True\<rparr>)\<rparr>)"
    using hidden d(2) by simp
  have b: "andThen (toggleWindow hiddenState) toggleWindow =
       Done (hiddenState\<lparr>companionWindow := Some (hiddenWindow\<lparr>position := Some (760, 108),
                                     isVisible := False, isFocused := False\<rparr>)\<rparr>)"
    using hidden d(2) by blast
  have e: "toggleWindow (hiddenState\<lparr>companionWindow :=
          Some (hiddenWindow\<lparr>isVisible := True, isFocused := True\<rparr>)\<rparr>) =
       Done (hiddenState\<lparr>companionWindow :=
          Some (hiddenWindow\<lparr>isVisible := False, isFocused := False\<rparr>)\<rparr>)"
    using toggleWindow_cases [OF v(1) w(1)] by simp
  have f: "toggleWindow (hiddenState\<lparr>companionWindow :=
          Some (hiddenWindow\<lparr>isVisible := True, isFocused := False\<rparr>)\<rparr>) =
       Done (hiddenState\<lparr>companionWindow :=
          Some (hiddenWindow\<lparr>isVisible := True, isFocused := True\<rparr>)\<rparr>)"
    using toggleWindow_cases [OF v(2) w(2)] by simp
  show ?thesis
    using a b c d e f by (intro conjI)
qed

text \<open>
  C2. After start-up without a persisted host there is a tray icon and no companion
  window. The shortcut callback checks the reference and does nothing; a left click on
  the tray icon, and the menu item "Open Companion", call \<open>toggleWindow\<close> unguarded,
  which dereferences \<open>null\<close> and throws.
\<close>

theorem trayClick_without_companion:
  "whenReady (startup emptyStore 1920 1080) True = Done loginState
   \<and> companionWindow loginState = None
   \<and> map_option clickListeners (tray loginState) = Some [ToggleWindowListener]
   \<and> hotkeyPressed loginState = Done loginState
   \<and> trayClick loginState = Thrown NullDereference loginState
   \<and> runClick ToggleCompanion loginState = Thrown NullDereference loginState"
  by (simp add: loginState_eq(1) loginState_simps liveTray_clicks hotkeyPressed_def
        trayClick_def toggleWindow_def)

subsection \<open>The position resolver\<close>

text \<open>
  C3. The switch of \<open>getWindowPosition\<close> is a function of the position name, the
  window size and the work-area size alone. For each of the six names it yields the
  stated coordinates, rounded by \<open>Math.round\<close>: \<open>bottom-right\<close> is
  \<open>(sw - ww - 20, sh - wh - 20)\<close>, the centred coordinates are half the free space
  rounded, the top rows are a tenth of the screen height rounded. Every other name,
  and an absent one, resolves as \<open>top-center\<close>. A 400 by 600 window on a 1920 by
  1080 work area at \<open>bottom-right\<close> is placed at (1500, 460).
\<close>

theorem positionSwitch_formulas:
  "positionSwitch (Some ''bottom-center'') ww wh sw sh = ((sw - ww + 1) div 2, sh - wh - 20)
   \<and> positionSwitch (Some ''bottom-left'') ww wh sw sh = (20, sh - wh - 20)
   \<and> positionSwitch (Some ''bottom-right'') ww wh sw sh = (sw - ww - 20, sh - wh - 20)
   \<and> positionSwitch (Some ''center'') ww wh sw sh = ((sw - ww + 1) div 2, (sh - wh + 1) div 2)
   \<and> positionSwitch (Some ''top-right'') ww wh sw sh = (sw - ww - 20, (sh + 5) div 10)
   \<and> positionSwitch (Some ''top-center'') ww wh sw sh = ((sw - ww + 1) div 2, (sh + 5) div 10)
   \<and> \<bar>of_int (fst (positionSwitch (Some ''center'') ww wh sw sh))
        - (of_int sw / 2 - of_int ww / 2 :: rat)\<bar> \<le> 1 / 2
   \<and> \<bar>of_int (snd (positionSwitch (Some ''center'') ww wh sw sh))
        - (of_int sh / 2 - of_int wh / 2 :: rat)\<bar> \<le> 1 / 2
   \<and> \<bar>of_int (snd (positionSwitch (Some ''top-center'') ww wh sw sh))
        - (of_int sh * (1 / 10) :: rat)\<bar> \<le> 1 / 2
   \<and> (pos \<notin> {Some ''bottom-center'', Some ''bottom-left'', Some ''bottom-right'',
               Some ''center'', Some ''top-right''}
        \<longrightarrow> positionSwitch pos ww wh sw sh = positionSwitch (Some ''top-center'') ww wh sw sh)
   \<and> positionSwitch (Some ''bottom-right'') 400 600 1920 1080 = (1500, 460)
   \<and> (companionWindow st = Some w \<and> \<not> isDestroyed w \<longrightarrow>
        getWindowPosition st ov =
          Inr (positionSwitch (orElse ov (positionSettings (store st) ''position''))
                 (width w) (height w) (workAreaWidth st) (workAreaHeight st)))"
proof -
  have f: "positionSwitch (Some ''bottom-center'') ww wh sw sh = ((sw - ww + 1) div 2, sh - wh - 20)
   \<and> positionSwitch (Some ''bottom-left'') ww wh sw sh = (20, sh - wh - 20)
   \<and> positionSwitch (Some ''bottom-right'') ww wh sw sh = (sw - ww - 20, sh - wh - 20)
   \<and> positionSwitch (Some ''center'') ww wh sw sh = ((sw - ww + 1) div 2, (sh - wh + 1) div 2)
   \<and> positionSwitch (Some ''top-right'') ww wh sw sh = (sw - ww - 20, (sh + 5) div 10)
   \<and> positionSwitch (Some ''top-center'') ww wh sw sh = ((sw - ww + 1) div 2, (sh + 5) div 10)"
    by (simp add: positionSwitch_eval)
  have n: "\<bar>of_int (fst (positionSwitch (Some ''center'') ww wh sw sh))
        - (of_int sw / 2 - of_int ww / 2 :: rat)\<bar> \<le> 1 / 2"
    "\<bar>of_int (snd (positionSwitch (Some ''center'') ww wh sw sh))
        - (of_int sh / 2 - of_int wh / 2 :: rat)\<bar> \<le> 1 / 2"
    "\<bar>of_int (snd (positionSwitch (Some ''top-center'') ww wh sw sh))
        - (of_int sh * (1 / 10) :: rat)\<bar> \<le> 1 / 2"
  proof -
    have c: "fst (positionSwitch (Some ''center'') ww wh sw sh) =
          Math_round (of_int sw / 2 - of_int ww / 2)"
        "snd (positionSwitch (Some ''center'') ww wh sw sh) =
          Math_round (of_int sh / 2 - of_int wh / 2)"
        "snd (positionSwitch (Some ''top-center'') ww wh sw sh) =
          Math_round (of_int sh * (1 / 10))"
      by (simp_all add: positionSwitch_def)
    show "\<bar>of_int (fst (positionSwitch (Some ''center'') ww wh sw sh))
        - (of_int sw / 2 - of_int ww / 2 :: rat)\<bar> \<le> 1 / 2"
      unfolding c by (rule Math_round_nearest)
    show "\<bar>of_int (snd (positionSwitch (Some ''center'') ww wh sw sh))
        - (of_int sh / 2 - of_int wh / 2 :: rat)\<bar> \<le> 1 / 2"
      unfolding c by (rule Math_round_nearest)
    show "\<bar>of_int (snd (positionSwitch (Some ''top-center'') ww wh sw sh))
        - (of_int sh * (1 / 10) :: rat)\<bar> \<le> 1 / 2"
      unfolding c by (rule Math_round_nearest)
  qed
  have d: "pos \<notin> {Some ''bottom-center'', Some ''bottom-left'', Some ''bottom-right'',
               Some ''center'', Some ''top-right''}
        \<longrightarrow> positionSwitch pos ww wh sw sh = positionSwitch (Some ''top-center'') ww wh sw sh"
    by (simp add: positionSwitch_eval)
  have e: "positionSwitch (Some ''bottom-right'') 400 600 1920 1080 = (1500, 460)"
    by (simp add: positionSwitch_eval)
  have g: "companionWindow st = Some w \<and> \<not> isDestroyed w \<longrightarrow>
        getWindowPosition st ov =
          Inr (positionSwitch (orElse ov (positionSettings (store st) ''position''))
                 (width w) (height w) (workAreaWidth st) (workAreaHeight st))"
    by (simp add: getWindowPosition_def)
  show ?thesis using f n d e g by (intro conjI) (elim conjE, assumption)+
qed

text \<open>An unknown name, an absent name, and a live hidden window with default settings.\<close>

theorem positionSwitch_formulas_witness:
  "Some ''sideways'' \<notin> {Some ''bottom-center'', Some ''bottom-left'', Some ''bottom-right'',
               Some ''center'', Some ''top-right''}
   \<and> positionSwitch (Some ''sideways'') 400 600 1920 1080 = (760, 108)
   \<and> positionSwitch (Some ''top-center'') 400 600 1920 1080 = (760, 108)
   \<and> positionSwitch None 400 600 1920 1080 = (760, 108)
   \<and> companionWindow hiddenState = Some hiddenWindow \<and> \<not> isDestroyed hiddenWindow
   \<and> getWindowPosition hiddenState (Some ''bottom-right'') = Inr (1500, 460)"
proof -
  note s = positionSwitch_formulas [where ww = 400 and wh = 600 and sw = 1920 and sh = 1080
      and pos = "Some ''sideways''" and st = hiddenState and w = hiddenWindow
      and ov = "Some ''bottom-right''"]
  note n = positionSwitch_formulas [where ww = 400 and wh = 600 and sw = 1920 and sh = 1080
      and pos = None and st = hiddenState and w = hiddenWindow and ov = None]
  have c: "companionWindow hiddenState = Some hiddenWindow" "\<not> isDestroyed hiddenWindow"
    "width hiddenWindow = 400" "height hiddenWindow = 600"
    "workAreaWidth hiddenState = 1920" "workAreaHeight hiddenState = 1080"
    by (simp_all add: hiddenState_def hiddenWindow_def newBrowserWindow_def startup_def)
  have 1: "Some ''sideways'' \<notin> {Some ''bottom-center'', Some ''bottom-left'',
      Some ''bottom-right'', Some ''center'', Some ''top-right''}"
    by simp
  have 2: "positionSwitch (Some ''sideways'') 400 600 1920 1080 = (760, 108)"
    using s by (elim conjE) simp
  have 3: "positionSwitch (Some ''top-center'') 400 600 1920 1080 = (760, 108)"
    using s by (elim conjE) simp
  have 4: "positionSwitch None 400 600 1920 1080 = (760, 108)"
    using n by (elim conjE) simp
  have 5: "getWindowPosition hiddenState (Some ''bottom-right'') = Inr (1500, 460)"
    using s by (elim conjE) (simp add: c orElse_def)
  show ?thesis using 1 2 3 4 c(1,2) 5 by (intro conjI)
qed

text \<open>
  C4, as the code has it. The switch clamps nothing. When the window and the work
  area have positive sizes and the window fits with the 20 pixel padding on both axes
  (\<open>ww + 20 \<le> sw\<close> and \<open>wh + 20 \<le> sh\<close>), the result for \<open>bottom-center\<close>,
  \<open>bottom-left\<close>, \<open>bottom-right\<close> and \<open>center\<close> lies in
  \<open>[0, sw - ww] \<times> [0, sh - wh]\<close>; for \<open>top-right\<close> it does when, in addition, the
  window height plus the rounded tenth of the screen height is at most the screen height.
\<close>

theorem positionSwitch_within_work_area:
  assumes "0 < ww" "0 < wh" "0 < sw" "0 < sh"
    and "ww + 20 \<le> sw" "wh + 20 \<le> sh"
    and "pos \<in> {Some ''bottom-center'', Some ''bottom-left'', Some ''bottom-right'',
               Some ''center'', Some ''top-right''}"
    and "pos = Some ''top-right'' \<longrightarrow> wh + (sh + 5) div 10 \<le> sh"
  shows "0 \<le> fst (positionSwitch pos ww wh sw sh)
       \<and> fst (positionSwitch pos ww wh sw sh) \<le> sw - ww
       \<and> 0 \<le> snd (positionSwitch pos ww wh sw sh)
       \<and> snd (positionSwitch pos ww wh sw sh) \<le> sh - wh"
proof -
  have x: "0 \<le> (sw - ww + 1) div 2 \<and> (sw - ww + 1) div 2 \<le> sw - ww"
    using assms(5) half_bounds [of "sw - ww"] by simp
  have y: "0 \<le> (sh - wh + 1) div 2 \<and> (sh - wh + 1) div 2 \<le> sh - wh"
    using assms(6) half_bounds [of "sh - wh"] by simp
  have t: "0 \<le> (sh + 5) div 10"
    using assms(4) tenth_nonneg [of sh] by simp
  from assms(7) have "pos = Some ''bottom-center'' \<or> pos = Some ''bottom-left''
      \<or> pos = Some ''bottom-right'' \<or> pos = Some ''center'' \<or> pos = Some ''top-right''"
    by (simp only: insert_iff empty_iff simp_thms)
  then show ?thesis
  proof (elim disjE)
    assume "pos = Some ''bottom-center''"
    then show ?thesis using x assms(6) by (simp add: positionSwitch_eval)
  next
    assume "pos = Some ''bottom-left''"
    then show ?thesis using assms(5,6) by (simp add: positionSwitch_eval)
  next
    assume "pos = Some ''bottom-right''"
    then show ?thesis using assms(5,6) by (simp add: positionSwitch_eval)
  next
    assume "pos = Some ''center''"
    then show ?thesis using x y by (simp add: positionSwitch_eval)
  next
    assume p: "pos = Some ''top-right''"
    with assms(8) have "wh + (sh + 5) div 10 \<le> sh" by simp
    with p show ?thesis using t assms(5) by (simp add: positionSwitch_eval)
  qed
qed

theorem positionSwitch_within_work_area_witness:
  "0 \<le> fst (positionSwitch (Some ''top-right'') 400 600 1920 1080)
   \<and> fst (positionSwitch (Some ''top-right'') 400 600 1920 1080) \<le> 1920 - 400
   \<and> 0 \<le> snd (positionSwitch (Some ''top-right'') 400 600 1920 1080)
   \<and> snd (positionSwitch (Some ''top-right'') 400 600 1920 1080) \<le> 1080 - 600"
  using positionSwitch_within_work_area [of 400 600 1920 1080 "Some ''top-right''"]
  by simp

text \<open>
  C4 as stated fails: a 400 by 600 window on an 800 by 600 work area has positive
  sizes, and \<open>bottom-right\<close> places it at (380, -20), above the top edge.
\<close>

theorem positionSwitch_out_of_bounds:
  "\<not> (0 \<le> fst (positionSwitch (Some ''bottom-right'') 400 600 800 600)
      \<and> fst (positionSwitch (Some ''bottom-right'') 400 600 800 600) \<le> 800 - 400
      \<and> 0 \<le> snd (positionSwitch (Some ''bottom-right'') 400 600 800 600)
      \<and> snd (positionSwitch (Some ''bottom-right'') 400 600 800 600) \<le> 600 - 600)"
  by (simp add: positionSwitch_eval)

subsection \<open>Start-up order and the login dialog\<close>

text \<open>
  C5, as the code has it. With a persisted, non-empty host and a usable tray reference,
  start-up creates the companion window (hidden), then the main window (visible), then
  sets the application menu, then runs \<open>createTray\<close>, then registers the global
  shortcut. A login submission that proceeds creates the same two windows and the same
  menu, in the order main window, menu, companion window.
\<close>

theorem whenReady_sequence:
  fixes st :: state and ret :: bool
  defines "st' \<equiv> state_of (whenReady st ret)"
  assumes "serverHost (store st) = Some h" and "h \<noteq> []" and "trayUsable st"
  shows "whenReady st ret = Done st'
       \<and> trace st' =
           trace st @ [NewBrowserWindow Companion (hostURL h),
                       NewBrowserWindow Main (hostURL h), SetApplicationMenu h]
           @ (if traySettings (store st) ''trayVisibility'' = Some ''never''
              then (if tray st = None then [] else [TrayDestroy])
              else (if tray st = None then [BuildTrayMenu, NewTray] else [BuildTrayMenu]))
           @ [RegisterShortcut ''Option+Space'']
       \<and> companionWindow st' =
           Some ((newBrowserWindow 400 600 False)\<lparr>loadedURL := hostURL h\<rparr>)
       \<and> mainWindow st' = Some ((newBrowserWindow 800 800 True)\<lparr>loadedURL := hostURL h\<rparr>)
       \<and> shortcutRegistered st' = ret
       \<and> (\<not> startsWith host ''http://'' \<or> response = 0 \<longrightarrow>
            trace (submit_server_host st0 host response) =
              trace st0 @ (if startsWith host ''http://'' then [ShowMessageBox] else [])
              @ [NewBrowserWindow Main (hostURL host), SetApplicationMenu host,
                 NewBrowserWindow Companion (hostURL host)]
            \<and> companionWindow (submit_server_host st0 host response) =
                Some ((newBrowserWindow 400 600 False)\<lparr>loadedURL := hostURL host\<rparr>)
            \<and> mainWindow (submit_server_host st0 host response) =
                Some ((newBrowserWindow 800 800 True)\<lparr>loadedURL := hostURL host\<rparr>))"
proof -
  define sti where "sti = initialize st"
  define stt where "stt = state_of (createTray sti)"
  have i: "sti =
       st\<lparr>companionWindow := Some ((newBrowserWindow 400 600 False)\<lparr>loadedURL := hostURL h\<rparr>),
          mainWindow := Some ((newBrowserWindow 800 800 True)\<lparr>loadedURL := hostURL h\<rparr>),
          trace := trace st @ [NewBrowserWindow Companion (hostURL h),
                               NewBrowserWindow Main (hostURL h), SetApplicationMenu h]\<rparr>"
    unfolding sti_def using assms(2,3) by (rule initialize_host)
  have u: "trayUsable sti" using assms(4) by (simp add: i trayUsable_def)
  have d: "createTray sti = Done stt"
    unfolding stt_def using u by (rule createTray_Done)
  have w: "whenReady st ret =
      Done (stt\<lparr>shortcutRegistered := ret,
                trace := trace stt @ [RegisterShortcut ''Option+Space'']\<rparr>)"
    by (simp add: whenReady_def sti_def [symmetric] d)
  have s: "st' = stt\<lparr>shortcutRegistered := ret,
                trace := trace stt @ [RegisterShortcut ''Option+Space'']\<rparr>"
    by (simp add: st'_def w)
  have t: "trace stt = trace sti @
       (if traySettings (store sti) ''trayVisibility'' = Some ''never''
        then (if tray sti = None then [] else [TrayDestroy])
        else (if tray sti = None then [BuildTrayMenu, NewTray] else [BuildTrayMenu]))"
    unfolding stt_def using u by (rule createTray_trace)
  have f: "companionWindow stt = companionWindow sti" "mainWindow stt = mainWindow sti"
    by (simp_all add: stt_def createTray_frame)
  have 1: "whenReady st ret = Done st'" by (simp add: w s)
  have 2: "trace st' =
           trace st @ [NewBrowserWindow Companion (hostURL h),
                       NewBrowserWindow Main (hostURL h), SetApplicationMenu h]
           @ (if traySettings (store st) ''trayVisibility'' = Some ''never''
              then (if tray st = None then [] else [TrayDestroy])
              else (if tray st = None then [BuildTrayMenu, NewTray] else [BuildTrayMenu]))
           @ [RegisterShortcut ''Option+Space'']"
    by (simp add: s t) (simp add: i)
  have 3: "companionWindow st' =
           Some ((newBrowserWindow 400 600 False)\<lparr>loadedURL := hostURL h\<rparr>)"
    by (simp add: s f) (simp add: i)
  have 4: "mainWindow st' = Some ((newBrowserWindow 800 800 True)\<lparr>loadedURL := hostURL h\<rparr>)"
    by (simp add: s f) (simp add: i)
  have 5: "shortcutRegistered st' = ret" by (simp add: s)
  have 6: "\<not> startsWith host ''http://'' \<or> response = 0 \<longrightarrow>
            trace (submit_server_host st0 host response) =
              trace st0 @ (if startsWith host ''http://'' then [ShowMessageBox] else [])
              @ [NewBrowserWindow Main (hostURL host), SetApplicationMenu host,
                 NewBrowserWindow Companion (hostURL host)]
            \<and> companionWindow (submit_server_host st0 host response) =
                Some ((newBrowserWindow 400 600 False)\<lparr>loadedURL := hostURL host\<rparr>)
            \<and> mainWindow (submit_server_host st0 host response) =
                Some ((newBrowserWindow 800 800 True)\<lparr>loadedURL := hostURL host\<rparr>)"
    by (simp add: submit_proceeds)
  show ?thesis using 1 2 3 4 5 6 by (intro conjI)
qed

text \<open>C5 on the start-up state with the host \<open>chat.example.com\<close>.\<close>

theorem whenReady_sequence_witness:
  "serverHost (store (startup hostStore 1920 1080)) = Some ''chat.example.com''
   \<and> ''chat.example.com'' \<noteq> [] \<and> trayUsable (startup hostStore 1920 1080)
   \<and> trace (state_of (whenReady (startup hostStore 1920 1080) True)) =
       [NewBrowserWindow Companion ''https://chat.example.com'',
        NewBrowserWindow Main ''https://chat.example.com'',
        SetApplicationMenu ''chat.example.com'', BuildTrayMenu, NewTray,
        RegisterShortcut ''Option+Space'']
   \<and> trace (submit_server_host (startup emptyStore 1920 1080) ''chat.example.com'' 0) =
       [NewBrowserWindow Main ''https://chat.example.com'',
        SetApplicationMenu ''chat.example.com'',
        NewBrowserWindow Companion ''https://chat.example.com'']"
proof -
  have h: "serverHost (store (startup hostStore 1920 1080)) = Some ''chat.example.com''"
    "''chat.example.com'' \<noteq> []" "trayUsable (startup hostStore 1920 1080)"
    by (simp_all add: startup_simps)
  note t = whenReady_sequence [OF h, where ret = True and host = "''chat.example.com''"
      and response = 0 and ?st0.0 = "startup emptyStore 1920 1080"]
  have a: "trace (state_of (whenReady (startup hostStore 1920 1080) True)) =
       [NewBrowserWindow Companion ''https://chat.example.com'',
        NewBrowserWindow Main ''https://chat.example.com'',
        SetApplicationMenu ''chat.example.com'', BuildTrayMenu, NewTray,
        RegisterShortcut ''Option+Space'']"
    using t by (elim conjE) (simp add: startup_simps defaultSettings_tray hostURL_example)
  have b: "trace (submit_server_host (startup emptyStore 1920 1080) ''chat.example.com'' 0) =
       [NewBrowserWindow Main ''https://chat.example.com'',
        SetApplicationMenu ''chat.example.com'',
        NewBrowserWindow Companion ''https://chat.example.com'']"
    using t by (elim conjE) (simp add: startup_simps hostURL_example startsWith_def)
  show ?thesis using h a b by (intro conjI)
qed

text \<open>
  C5 as stated fails: a login submission creates the main window before the
  companion window, start-up the companion window before the main window.
\<close>

theorem submit_creates_main_first:
  "trace (submit_server_host (startup emptyStore 1920 1080) ''chat.example.com'' 0) =
     [NewBrowserWindow Main ''https://chat.example.com'',
      SetApplicationMenu ''chat.example.com'',
      NewBrowserWindow Companion ''https://chat.example.com'']
   \<and> trace (initialize (startup hostStore 1920 1080)) =
     [NewBrowserWindow Companion ''https://chat.example.com'',
      NewBrowserWindow Main ''https://chat.example.com'',
      SetApplicationMenu ''chat.example.com'']"
  by (simp add: submit_proceeds initialize_host [where h = "''chat.example.com''"]
        startup_simps hostURL_example startsWith_def)

text \<open>
  C6. For a host that starts with \<open>http://\<close> the handler shows the warning dialog
  before anything else. On any answer but Continue the store is unchanged and the only
  further effect is the \<open>clear-server-host-input\<close> message to the sender. On Continue,
  or for a host that does not start with \<open>http://\<close>, the host is persisted and the main
  and the companion window are created.
\<close>

theorem submit_server_host_dialog:
  "(startsWith host ''http://'' \<and> response \<noteq> 0 \<longrightarrow>
      submit_server_host st host response =
        st\<lparr>trace := trace st @ [ShowMessageBox, IpcSend ''clear-server-host-input'']\<rparr>
      \<and> store (submit_server_host st host response) = store st)
   \<and> (\<not> startsWith host ''http://'' \<or> response = 0 \<longrightarrow>
      store (submit_server_host st host response) = (store st)\<lparr>serverHost := Some host\<rparr>
      \<and> mainWindow (submit_server_host st host response) =
          Some ((newBrowserWindow 800 800 True)\<lparr>loadedURL := hostURL host\<rparr>)
      \<and> companionWindow (submit_server_host st host response) =
          Some ((newBrowserWindow 400 600 False)\<lparr>loadedURL := hostURL host\<rparr>)
      \<and> trace (submit_server_host st host response) =
          trace st @ (if startsWith host ''http://'' then [ShowMessageBox] else [])
          @ [NewBrowserWindow Main (hostURL host), SetApplicationMenu host,
             NewBrowserWindow Companion (hostURL host)])"
  by (simp add: submit_proceeds submit_cancelled)

text \<open>C6 on the three paths of the handler.\<close>

theorem submit_server_host_dialog_witness:
  "startsWith ''http://chat.example.com'' ''http://''
   \<and> \<not> startsWith ''chat.example.com'' ''http://''
   \<and> submit_server_host (startup emptyStore 1920 1080) ''http://chat.example.com'' 1 =
       (startup emptyStore 1920 1080)
         \<lparr>trace := [ShowMessageBox, IpcSend ''clear-server-host-input'']\<rparr>
   \<and> serverHost (store
         (submit_server_host (startup emptyStore 1920 1080) ''http://chat.example.com'' 1)) = None
   \<and> serverHost (store
         (submit_server_host (startup emptyStore 1920 1080) ''http://chat.example.com'' 0)) =
       Some ''http://chat.example.com''
   \<and> serverHost (store
         (submit_server_host (startup emptyStore 1920 1080) ''chat.example.com'' 1)) =
       Some ''chat.example.com''"
proof -
  have s: "startsWith ''http://chat.example.com'' ''http://''"
    "\<not> startsWith ''chat.example.com'' ''http://''"
    by (simp_all add: startsWith_def)
  note c = submit_server_host_dialog [where st = "startup emptyStore 1920 1080"
      and host = "''http://chat.example.com''" and response = 1]
  note k = submit_server_host_dialog [where st = "startup emptyStore 1920 1080"
      and host = "''http://chat.example.com''" and response = 0]
  note p = submit_server_host_dialog [where st = "startup emptyStore 1920 1080"
      and host = "''chat.example.com''" and response = 1]
  have a: "submit_server_host (startup emptyStore 1920 1080) ''http://chat.example.com'' 1 =
       (startup emptyStore 1920 1080)
         \<lparr>trace := [ShowMessageBox, IpcSend ''clear-server-host-input'']\<rparr>"
    using c s(1) by (simp add: startup_simps)
  have b: "serverHost (store
         (submit_server_host (startup emptyStore 1920 1080) ''http://chat.example.com'' 1)) = None"
    using c s(1) by (simp add: startup_simps)
  have d: "serverHost (store
         (submit_server_host (startup emptyStore 1920 1080) ''http://chat.example.com'' 0)) =
       Some ''http://chat.example.com''"
    using k by simp
  have e: "serverHost (store
         (submit_server_host (startup emptyStore 1920 1080) ''chat.example.com'' 1)) =
       Some ''chat.example.com''"
    using p s(2) by simp
  show ?thesis using s a b d e by (intro conjI)
qed

subsection \<open>The tray and its menu\<close>

text \<open>
  C7. With a tray reference that is \<open>null\<close> or live, \<open>createTray\<close> under
  \<open>trayVisibility = never\<close> destroys a live tray icon and changes nothing else.
  Under any other value it creates the icon when there is none and keeps an existing
  one, and in both cases attaches a context menu built from the settings just read:
  every radio item of that menu is checked exactly when the settings hold its value.
  After the tray was removed, \<open>updateSetting('trayVisibility', 'always')\<close> creates it
  again with the menu of the settings as they then are.
\<close>

theorem createTray_ensure:
  assumes "trayUsable st"
  shows "(traySettings (store st) ''trayVisibility'' = Some ''never'' \<longrightarrow>
            createTray st =
              Done (if tray st = None then st
                    else st\<lparr>tray := None, trace := trace st @ [TrayDestroy]\<rparr>))
       \<and> (traySettings (store st) ''trayVisibility'' \<noteq> Some ''never'' \<longrightarrow>
            createTray st =
              Done (st\<lparr>tray := Some ((case tray st of None \<Rightarrow> newTray | Some t \<Rightarrow> t)
                        \<lparr>contextMenu := None,
                         clickListeners := [ToggleWindowListener],
                         rightClickListeners :=
                           [PopUpContextMenu (trayTemplate (traySettings (store st)))]\<rparr>),
                      trace := trace st @
                        (if tray st = None then [BuildTrayMenu, NewTray] else [BuildTrayMenu])\<rparr>))
       \<and> radios (trayTemplate (traySettings (store st))) =
            [Radio ''Bottom Center'' (traySettings (store st) ''position'' = Some ''bottom-center'')
               (UpdateSetting ''position'' ''bottom-center''),
             Radio ''Bottom Left'' (traySettings (store st) ''position'' = Some ''bottom-left'')
               (UpdateSetting ''position'' ''bottom-left''),
             Radio ''Bottom Right'' (traySettings (store st) ''position'' = Some ''bottom-right'')
               (UpdateSetting ''position'' ''bottom-right''),
             Radio ''Always'' (traySettings (store st) ''trayVisibility'' = Some ''always'')
               (UpdateSetting ''trayVisibility'' ''always''),
             Radio ''When app is running''
               (traySettings (store st) ''trayVisibility'' = Some ''running'')
               (UpdateSetting ''trayVisibility'' ''running''),
             Radio ''Never'' (traySettings (store st) ''trayVisibility'' = Some ''never'')
               (UpdateSetting ''trayVisibility'' ''never'')]
       \<and> list_all (radioMatches (traySettings (store st)))
            (radios (trayTemplate (traySettings (store st))))
       \<and> set (checkedValues key (radios (trayTemplate (traySettings (store st))))) =
            {v \<in> set (choices key (radios (trayTemplate (traySettings (store st))))).
               traySettings (store st) key = Some v}
       \<and> (tray st = None \<longrightarrow>
            updateSetting st ''trayVisibility'' ''always'' =
              Done (state_of (updateSetting st ''trayVisibility'' ''always''))
            \<and> settingsField (state_of (updateSetting st ''trayVisibility'' ''always''))
                ''trayVisibility'' = Some ''always''
            \<and> tray (state_of (updateSetting st ''trayVisibility'' ''always'')) =
                Some (newTray\<lparr>contextMenu := None,
                       clickListeners := [ToggleWindowListener],
                       rightClickListeners :=
                         [PopUpContextMenu (trayTemplate (traySettings (store
                            (state_of (updateSetting st ''trayVisibility'' ''always'')))))]\<rparr>)
            \<and> checkedValues ''trayVisibility'' (radios (trayTemplate (traySettings (store
                  (state_of (updateSetting st ''trayVisibility'' ''always''))))))
                = [''always''])"
proof (intro conjI impI)
  assume n: "traySettings (store st) ''trayVisibility'' = Some ''never''"
  show "createTray st =
      Done (if tray st = None then st else st\<lparr>tray := None, trace := trace st @ [TrayDestroy]\<rparr>)"
  proof (cases "tray st")
    case None
    then show ?thesis using n by (simp add: createTray_never_none)
  next
    case (Some t)
    then show ?thesis using n assms by (simp add: createTray_never_live trayUsable_def)
  qed
next
  assume n: "traySettings (store st) ''trayVisibility'' \<noteq> Some ''never''"
  show "createTray st =
      Done (st\<lparr>tray := Some ((case tray st of None \<Rightarrow> newTray | Some t \<Rightarrow> t)
                \<lparr>contextMenu := None,
                 clickListeners := [ToggleWindowListener],
                 rightClickListeners :=
                   [PopUpContextMenu (trayTemplate (traySettings (store st)))]\<rparr>),
              trace := trace st @
                (if tray st = None then [BuildTrayMenu, NewTray] else [BuildTrayMenu])\<rparr>)"
  proof (cases "tray st")
    case None
    then show ?thesis using n by (simp add: createTray_shown_none)
  next
    case (Some t)
    then show ?thesis using n assms by (simp add: createTray_shown_live trayUsable_def)
  qed
next
  show "list_all (radioMatches (traySettings (store st)))
          (radios (trayTemplate (traySettings (store st))))"
    by (rule radios_match)
  show "radios (trayTemplate (traySettings (store st))) =
            [Radio ''Bottom Center'' (traySettings (store st) ''position'' = Some ''bottom-center'')
               (UpdateSetting ''position'' ''bottom-center''),
             Radio ''Bottom Left'' (traySettings (store st) ''position'' = Some ''bottom-left'')
               (UpdateSetting ''position'' ''bottom-left''),
             Radio ''Bottom Right'' (traySettings (store st) ''position'' = Some ''bottom-right'')
               (UpdateSetting ''position'' ''bottom-right''),
             Radio ''Always'' (traySettings (store st) ''trayVisibility'' = Some ''always'')
               (UpdateSetting ''trayVisibility'' ''always''),
             Radio ''When app is running''
               (traySettings (store st) ''trayVisibility'' = Some ''running'')
               (UpdateSetting ''trayVisibility'' ''running''),
             Radio ''Never'' (traySettings (store st) ''trayVisibility'' = Some ''never'')
               (UpdateSetting ''trayVisibility'' ''never'')]"
    by (rule radios_trayTemplate)
  show "set (checkedValues key (radios (trayTemplate (traySettings (store st))))) =
            {v \<in> set (choices key (radios (trayTemplate (traySettings (store st))))).
               traySettings (store st) key = Some v}"
    by (rule checkedValues_trayTemplate)
next
  assume t: "tray st = None"
  define m where "m = (case settings (store st) of Some m \<Rightarrow> m | None \<Rightarrow> Map.empty)"
  define st1 where
    "st1 = st\<lparr>store := (store st)\<lparr>settings := Some (m(''trayVisibility'' \<mapsto> ''always''))\<rparr>\<rparr>"
  have u: "updateSetting st ''trayVisibility'' ''always'' = createTray st1"
    by (simp add: updateSetting_def st1_def m_def Let_def)
  have v: "traySettings (store st1) ''trayVisibility'' \<noteq> Some ''never''" "tray st1 = None"
    using t by (simp_all add: st1_def traySettings_def)
  note c = createTray_shown_none [OF v]
  show "updateSetting st ''trayVisibility'' ''always'' =
      Done (state_of (updateSetting st ''trayVisibility'' ''always''))"
    by (simp add: u c)
  show "settingsField (state_of (updateSetting st ''trayVisibility'' ''always''))
      ''trayVisibility'' = Some ''always''"
    by (simp add: u createTray_frame(3) settingsField_def st1_def)
  show "tray (state_of (updateSetting st ''trayVisibility'' ''always'')) =
      Some (newTray\<lparr>contextMenu := None,
             clickListeners := [ToggleWindowListener],
             rightClickListeners :=
               [PopUpContextMenu (trayTemplate (traySettings (store
                  (state_of (updateSetting st ''trayVisibility'' ''always'')))))]\<rparr>)"
    by (simp add: u c)
  have a: "traySettings (store (state_of (updateSetting st ''trayVisibility'' ''always'')))
      ''trayVisibility'' = Some ''always''"
    by (simp add: u createTray_frame(3) traySettings_def st1_def)
  show "checkedValues ''trayVisibility'' (radios (trayTemplate (traySettings (store
        (state_of (updateSetting st ''trayVisibility'' ''always''))))))
      = [''always'']"
    using a by (rule checkedValues_always)
qed

text \<open>The three cases of C7 on concrete states.\<close>

theorem createTray_ensure_witness:
  "trayUsable hiddenState \<and> trayUsable neverState
   \<and> createTray neverState = Done (neverState\<lparr>tray := None, trace := [TrayDestroy]\<rparr>)
   \<and> createTray hiddenState =
       Done (hiddenState\<lparr>tray := Some (newTray\<lparr>contextMenu := None,
                 clickListeners := [ToggleWindowListener],
                 rightClickListeners := [PopUpContextMenu (trayTemplate defaultSettings)]\<rparr>),
               trace := [BuildTrayMenu, NewTray]\<rparr>)
   \<and> radios (trayTemplate (traySettings (store hiddenState))) =
       [Radio ''Bottom Center'' False (UpdateSetting ''position'' ''bottom-center''),
        Radio ''Bottom Left'' False (UpdateSetting ''position'' ''bottom-left''),
        Radio ''Bottom Right'' False (UpdateSetting ''position'' ''bottom-right''),
        Radio ''Always'' True (UpdateSetting ''trayVisibility'' ''always''),
        Radio ''When app is running'' False (UpdateSetting ''trayVisibility'' ''running''),
        Radio ''Never'' False (UpdateSetting ''trayVisibility'' ''never'')]
   \<and> ''never'' \<in> set (checkedValues ''trayVisibility''
          (radios (trayTemplate (traySettings (store neverState)))))
   \<and> ''always'' \<notin> set (checkedValues ''trayVisibility''
          (radios (trayTemplate (traySettings (store neverState)))))
   \<and> settingsField (state_of (updateSetting (neverState\<lparr>tray := None\<rparr>)
         ''trayVisibility'' ''always'')) ''trayVisibility'' = Some ''always''
   \<and> checkedValues ''trayVisibility'' (radios (trayTemplate (traySettings (store
         (state_of (updateSetting (neverState\<lparr>tray := None\<rparr>) ''trayVisibility'' ''always''))))))
       = [''always'']"
proof -
  have u: "trayUsable hiddenState" "trayUsable neverState"
          "trayUsable (neverState\<lparr>tray := None\<rparr>)"
    by (simp_all add: trayUsable_def hiddenState_simps neverState_simps liveTray_live)
  note h = createTray_ensure [OF u(1), where key = "''trayVisibility''"]
  note n = createTray_ensure [OF u(2), where key = "''trayVisibility''"]
  note r = createTray_ensure [OF u(3), where key = "''trayVisibility''"]
  have a: "createTray neverState = Done (neverState\<lparr>tray := None, trace := [TrayDestroy]\<rparr>)"
    using n by (elim conjE) (simp add: neverState_simps)
  have b: "createTray hiddenState =
       Done (hiddenState\<lparr>tray := Some (newTray\<lparr>contextMenu := None,
                 clickListeners := [ToggleWindowListener],
                 rightClickListeners := [PopUpContextMenu (trayTemplate defaultSettings)]\<rparr>),
               trace := [BuildTrayMenu, NewTray]\<rparr>)"
    using h
    by (elim conjE) (simp add: hiddenState_simps traySettings_hostStore defaultSettings_tray)
  have c: "radios (trayTemplate (traySettings (store hiddenState))) =
       [Radio ''Bottom Center'' False (UpdateSetting ''position'' ''bottom-center''),
        Radio ''Bottom Left'' False (UpdateSetting ''position'' ''bottom-left''),
        Radio ''Bottom Right'' False (UpdateSetting ''position'' ''bottom-right''),
        Radio ''Always'' True (UpdateSetting ''trayVisibility'' ''always''),
        Radio ''When app is running'' False (UpdateSetting ''trayVisibility'' ''running''),
        Radio ''Never'' False (UpdateSetting ''trayVisibility'' ''never'')]"
    using h
    by (elim conjE)
       (simp add: hiddenState_simps traySettings_hostStore defaultSettings_def)
  have q: "set (checkedValues ''trayVisibility''
          (radios (trayTemplate (traySettings (store neverState))))) =
        {v \<in> set (choices ''trayVisibility''
                  (radios (trayTemplate (traySettings (store neverState))))).
           traySettings (store neverState) ''trayVisibility'' = Some v}"
    using n by (elim conjE) simp
  have d: "''never'' \<in> set (checkedValues ''trayVisibility''
          (radios (trayTemplate (traySettings (store neverState)))))"
    "''always'' \<notin> set (checkedValues ''trayVisibility''
          (radios (trayTemplate (traySettings (store neverState)))))"
    unfolding q by (simp_all add: choices_trayTemplate neverState_simps)
  have e: "settingsField (state_of (updateSetting (neverState\<lparr>tray := None\<rparr>)
         ''trayVisibility'' ''always'')) ''trayVisibility'' = Some ''always''"
    using r by (elim conjE) simp
  have f: "checkedValues ''trayVisibility'' (radios (trayTemplate (traySettings (store
         (state_of (updateSetting (neverState\<lparr>tray := None\<rparr>) ''trayVisibility'' ''always''))))))
       = [''always'']"
    using r by (elim conjE) simp
  show ?thesis using u(1,2) a b c d e f by (intro conjI)
qed

text \<open>
  C8, as the code has it. The tray menu holds the items "Open Soluma Chat", "Open
  Companion" and "Quit", a radio group for the companion position over the three names
  \<open>bottom-center\<close>, \<open>bottom-left\<close>, \<open>bottom-right\<close>, and a radio group for the tray
  visibility over \<open>always\<close>, \<open>running\<close>, \<open>never\<close>. "Open Soluma Chat" creates the
  main window when there is none or it is destroyed and a host is persisted, does
  nothing in that case when no host is persisted, and shows and focuses a live one;
  "Open Companion" is \<open>toggleWindow\<close>; choosing a value of either group stores it in
  the settings; choosing a position moves a live companion window at once and does
  nothing more when there is no companion window; choosing \<open>never\<close> with a live tray
  destroys the tray at once.
\<close>

theorem trayTemplate_offers:
  "Item ''Open Soluma Chat'' OpenSolumaChat \<in> set (trayTemplate cfg)
   \<and> Item ''Open Companion'' ToggleCompanion \<in> set (trayTemplate cfg)
   \<and> RoleItem ''Quit'' ''quit'' \<in> set (trayTemplate cfg)
   \<and> choices ''position'' (radios (trayTemplate cfg)) =
        [''bottom-center'', ''bottom-left'', ''bottom-right'']
   \<and> choices ''trayVisibility'' (radios (trayTemplate cfg)) =
        [''always'', ''running'', ''never'']
   \<and> (mainWindow st = None \<and> serverHost (store st) = Some h \<and> h \<noteq> [] \<longrightarrow>
        runClick OpenSolumaChat st = Done (createMainWindow st h))
   \<and> (mainWindow st = Some mw \<and> isDestroyed mw \<and> serverHost (store st) = Some h \<and> h \<noteq> []
        \<longrightarrow> runClick OpenSolumaChat st = Done (createMainWindow st h))
   \<and> ((mainWindow st = None \<or> (mainWindow st = Some mw \<and> isDestroyed mw))
        \<and> (serverHost (store st) = None \<or> serverHost (store st) = Some [])
        \<longrightarrow> runClick OpenSolumaChat st = Done st)
   \<and> (mainWindow st = Some mw \<and> \<not> isDestroyed mw \<longrightarrow>
        runClick OpenSolumaChat st =
          Done (st\<lparr>mainWindow := Some (mw\<lparr>isVisible := True, isFocused := True\<rparr>)\<rparr>))
   \<and> runClick ToggleCompanion st = toggleWindow st
   \<and> store (state_of (runClick (UpdateSetting k v) st)) =
        (store st)\<lparr>settings :=
           Some ((case settings (store st) of Some m \<Rightarrow> m | None \<Rightarrow> Map.empty)(k \<mapsto> v))\<rparr>
   \<and> settingsField (state_of (runClick (UpdateSetting k v) st)) k = Some v
   \<and> (trayUsable st \<and> companionWindow st = None \<longrightarrow>
        runClick (UpdateSetting ''position'' v) st =
          Done (state_of (runClick (UpdateSetting ''position'' v) st))
        \<and> companionWindow (state_of (runClick (UpdateSetting ''position'' v) st)) = None)
   \<and> (trayUsable st \<and> companionWindow st = Some w \<and> \<not> isDestroyed w \<longrightarrow>
        runClick (UpdateSetting ''position'' v) st =
          Done (state_of (runClick (UpdateSetting ''position'' v) st))
        \<and> settingsField (state_of (runClick (UpdateSetting ''position'' v) st)) ''position''
            = Some v
        \<and> companionWindow (state_of (runClick (UpdateSetting ''position'' v) st)) =
            Some (w\<lparr>position := Some (positionSwitch (Some v) (width w) (height w)
                                      (workAreaWidth st) (workAreaHeight st))\<rparr>))
   \<and> (tray st = Some t \<and> \<not> trayDestroyed t \<longrightarrow>
        runClick (UpdateSetting ''trayVisibility'' ''never'') st =
          Done (st\<lparr>store := (store st)\<lparr>settings :=
                  Some ((case settings (store st) of Some m \<Rightarrow> m | None \<Rightarrow> Map.empty)
                          (''trayVisibility'' \<mapsto> ''never''))\<rparr>,
                  tray := None, trace := trace st @ [TrayDestroy]\<rparr>))"
proof (intro conjI impI)
  assume a: "trayUsable st \<and> companionWindow st = Some w \<and> \<not> isDestroyed w"
  then have u: "updateSetting st ''position'' v =
     Done ((state_of (createTray (st\<lparr>store := (store st)\<lparr>settings :=
        Some ((case settings (store st) of Some m \<Rightarrow> m | None \<Rightarrow> Map.empty)
                (''position'' \<mapsto> v))\<rparr>\<rparr>)))
       \<lparr>companionWindow := Some (w\<lparr>position :=
           Some (positionSwitch (Some v) (width w) (height w)
                   (workAreaWidth st) (workAreaHeight st))\<rparr>)\<rparr>)"
    by (simp add: updateSetting_position_live)
  show "runClick (UpdateSetting ''position'' v) st =
      Done (state_of (runClick (UpdateSetting ''position'' v) st))"
    by (simp add: u)
  show "settingsField (state_of (runClick (UpdateSetting ''position'' v) st)) ''position''
      = Some v"
    by (simp add: settingsField_def updateSetting_store)
  show "companionWindow (state_of (runClick (UpdateSetting ''position'' v) st)) =
      Some (w\<lparr>position := Some (positionSwitch (Some v) (width w) (height w)
                                (workAreaWidth st) (workAreaHeight st))\<rparr>)"
    by (simp add: u)
next
  assume "tray st = Some t \<and> \<not> trayDestroyed t"
  then show "runClick (UpdateSetting ''trayVisibility'' ''never'') st =
      Done (st\<lparr>store := (store st)\<lparr>settings :=
              Some ((case settings (store st) of Some m \<Rightarrow> m | None \<Rightarrow> Map.empty)
                      (''trayVisibility'' \<mapsto> ''never''))\<rparr>,
              tray := None, trace := trace st @ [TrayDestroy]\<rparr>)"
    by (simp add: updateSetting_never_live)
next
  assume "mainWindow st = None \<and> serverHost (store st) = Some h \<and> h \<noteq> []"
  then have "mainWindow st = None" and "serverHost (store st) = Some h" and "h \<noteq> []"
    by simp_all
  then show "runClick OpenSolumaChat st = Done (createMainWindow st h)"
    by (rule openSolumaChat_create)
next
  assume "mainWindow st = Some mw \<and> \<not> isDestroyed mw"
  then have "mainWindow st = Some mw" and "\<not> isDestroyed mw" by simp_all
  then show "runClick OpenSolumaChat st =
      Done (st\<lparr>mainWindow := Some (mw\<lparr>isVisible := True, isFocused := True\<rparr>)\<rparr>)"
    by (rule openSolumaChat_show)
next
  assume "mainWindow st = Some mw \<and> isDestroyed mw \<and> serverHost (store st) = Some h \<and> h \<noteq> []"
  then have "mainWindow st = Some mw" and "isDestroyed mw"
    and "serverHost (store st) = Some h" and "h \<noteq> []"
    by simp_all
  then show "runClick OpenSolumaChat st = Done (createMainWindow st h)"
    by (rule openSolumaChat_recreate)
next
  assume "(mainWindow st = None \<or> (mainWindow st = Some mw \<and> isDestroyed mw))
        \<and> (serverHost (store st) = None \<or> serverHost (store st) = Some [])"
  then have "mainWindow st = None \<or> (mainWindow st = Some mw \<and> isDestroyed mw)"
    and "serverHost (store st) = None \<or> serverHost (store st) = Some []"
    by simp_all
  then show "runClick OpenSolumaChat st = Done st"
    by (rule openSolumaChat_no_host)
next
  show s: "store (state_of (runClick (UpdateSetting k v) st)) =
        (store st)\<lparr>settings :=
           Some ((case settings (store st) of Some m \<Rightarrow> m | None \<Rightarrow> Map.empty)(k \<mapsto> v))\<rparr>"
    by (simp add: updateSetting_store)
  show "settingsField (state_of (runClick (UpdateSetting k v) st)) k = Some v"
    by (simp add: settingsField_def updateSetting_store)
next
  assume a: "trayUsable st \<and> companionWindow st = None"
  then have u: "updateSetting st ''position'' v =
     createTray (st\<lparr>store := (store st)\<lparr>settings :=
        Some ((case settings (store st) of Some m \<Rightarrow> m | None \<Rightarrow> Map.empty)
                (''position'' \<mapsto> v))\<rparr>\<rparr>)"
    by (intro updateSetting_no_position) simp_all
  have t: "trayUsable (st\<lparr>store := (store st)\<lparr>settings :=
        Some ((case settings (store st) of Some m \<Rightarrow> m | None \<Rightarrow> Map.empty)
                (''position'' \<mapsto> v))\<rparr>\<rparr>)"
    using a by (simp add: trayUsable_def)
  show "runClick (UpdateSetting ''position'' v) st =
      Done (state_of (runClick (UpdateSetting ''position'' v) st))"
    using createTray_Done [OF t] by (simp add: u)
  show "companionWindow (state_of (runClick (UpdateSetting ''position'' v) st)) = None"
    using a by (simp add: u createTray_frame)
qed (simp_all add: choices_trayTemplate items_trayTemplate)

text \<open>
  C8 on the state after start-up, on states without a main window and with a
  destroyed one, and on the state with nothing persisted.
\<close>

theorem trayTemplate_offers_witness:
  "trayUsable runningState
   \<and> companionWindow runningState = Some hiddenWindow \<and> \<not> isDestroyed hiddenWindow
   \<and> tray runningState = Some liveTray \<and> \<not> trayDestroyed liveTray
   \<and> settingsField (state_of (runClick (UpdateSetting ''position'' ''bottom-right'')
         runningState)) ''position'' = Some ''bottom-right''
   \<and> companionWindow (state_of (runClick (UpdateSetting ''position'' ''bottom-right'')
         runningState)) = Some (hiddenWindow\<lparr>position := Some (1500, 460)\<rparr>)
   \<and> tray (state_of (runClick (UpdateSetting ''trayVisibility'' ''never'') runningState)) = None
   \<and> map_option isVisible (mainWindow (state_of (runClick OpenSolumaChat runningState))) =
       Some True
   \<and> mainWindow hiddenState = None
   \<and> runClick OpenSolumaChat hiddenState = Done (createMainWindow hiddenState ''chat.example.com'')
   \<and> runClick OpenSolumaChat
         (hiddenState\<lparr>mainWindow := Some (hiddenWindow\<lparr>isDestroyed := True\<rparr>)\<rparr>) =
       Done (createMainWindow
               (hiddenState\<lparr>mainWindow := Some (hiddenWindow\<lparr>isDestroyed := True\<rparr>)\<rparr>)
               ''chat.example.com'')
   \<and> mainWindow loginState = None \<and> serverHost (store loginState) = None
   \<and> runClick OpenSolumaChat loginState = Done loginState
   \<and> trayUsable loginState \<and> companionWindow loginState = None
   \<and> companionWindow (state_of (runClick (UpdateSetting ''position'' ''bottom-right'')
         loginState)) = None
   \<and> settingsField (state_of (runClick (UpdateSetting ''position'' ''bottom-right'')
         loginState)) ''position'' = Some ''bottom-right''"
proof -
  note r = trayTemplate_offers [where st = runningState and w = hiddenWindow and t = liveTray
      and v = "''bottom-right''" and k = "''position''" and cfg = defaultSettings
      and h = "''chat.example.com''"
      and mw = "(newBrowserWindow 800 800 True)\<lparr>loadedURL := ''https://chat.example.com''\<rparr>"]
  note h = trayTemplate_offers [where st = hiddenState and h = "''chat.example.com''"
      and w = hiddenWindow and t = liveTray and v = "''bottom-right''" and k = "''position''"
      and cfg = defaultSettings and mw = hiddenWindow]
  note g = trayTemplate_offers [where
      st = "hiddenState\<lparr>mainWindow := Some (hiddenWindow\<lparr>isDestroyed := True\<rparr>)\<rparr>"
      and h = "''chat.example.com''" and w = hiddenWindow and t = liveTray
      and v = "''bottom-right''" and k = "''position''" and cfg = defaultSettings
      and mw = "hiddenWindow\<lparr>isDestroyed := True\<rparr>"]
  note l = trayTemplate_offers [where st = loginState and h = "''chat.example.com''"
      and w = hiddenWindow and t = liveTray and v = "''bottom-right''" and k = "''position''"
      and cfg = defaultSettings and mw = hiddenWindow]
  have m: "mainWindow hiddenState = None"
    by (simp add: hiddenState_def startup_def)
  have ls: "mainWindow loginState = None" "serverHost (store loginState) = None"
    "trayUsable loginState" "companionWindow loginState = None"
    by (simp_all add: loginState_eq(2) emptyStore_def trayUsable_def liveTray_live)
  have a: "companionWindow (state_of (runClick (UpdateSetting ''position'' ''bottom-right'')
         runningState)) = Some (hiddenWindow\<lparr>position := Some (1500, 460)\<rparr>)"
    using r
    by (elim conjE)
       (simp add: trayUsable_runningState runningState_simps hiddenWindow_simps
          positionSwitch_eval)
  have a': "settingsField (state_of (runClick (UpdateSetting ''position'' ''bottom-right'')
         runningState)) ''position'' = Some ''bottom-right''"
    using r by (elim conjE) simp
  have b: "tray (state_of (runClick (UpdateSetting ''trayVisibility'' ''never'') runningState))
      = None"
    using r by (elim conjE) (simp add: runningState_simps liveTray_live)
  have c: "map_option isVisible (mainWindow (state_of (runClick OpenSolumaChat runningState))) =
       Some True"
    using r by (elim conjE) (simp add: runningState_simps newBrowserWindow_def)
  have d: "runClick OpenSolumaChat hiddenState =
      Done (createMainWindow hiddenState ''chat.example.com'')"
    using h by (elim conjE) (simp add: m hiddenState_simps hostStore_def)
  have e: "runClick OpenSolumaChat
         (hiddenState\<lparr>mainWindow := Some (hiddenWindow\<lparr>isDestroyed := True\<rparr>)\<rparr>) =
       Done (createMainWindow
               (hiddenState\<lparr>mainWindow := Some (hiddenWindow\<lparr>isDestroyed := True\<rparr>)\<rparr>)
               ''chat.example.com'')"
    using g by (elim conjE) (simp add: hiddenState_simps hostStore_def)
  have f: "runClick OpenSolumaChat loginState = Done loginState"
    using l by (elim conjE) (simp add: ls)
  have i: "companionWindow (state_of (runClick (UpdateSetting ''position'' ''bottom-right'')
         loginState)) = None"
    using l by (elim conjE) (simp add: ls)
  have j: "settingsField (state_of (runClick (UpdateSetting ''position'' ''bottom-right'')
         loginState)) ''position'' = Some ''bottom-right''"
    using l by (elim conjE) simp
  show ?thesis
    using trayUsable_runningState runningState_simps(1) hiddenWindow_simps(1)
      runningState_simps(2) liveTray_live a' a b c m d e ls(1,2) f ls(3,4) i j
    by (intro conjI)
qed

text \<open>
  C8 as stated fails: the position group of the menu does not offer \<open>top-center\<close>,
  \<open>center\<close> or \<open>top-right\<close>.
\<close>

theorem trayTemplate_positions_missing:
  "''top-center'' \<notin> set (choices ''position'' (radios (trayTemplate defaultSettings)))
   \<and> ''center'' \<notin> set (choices ''position'' (radios (trayTemplate defaultSettings)))
   \<and> ''top-right'' \<notin> set (choices ''position'' (radios (trayTemplate defaultSettings)))"
  by (simp add: choices_trayTemplate)

subsection \<open>Settings updates\<close>

text \<open>
  C9, as the code has it. \<open>updateSetting\<close> stores the new value of the key, then runs
  \<open>createTray\<close> on the updated store (no tray under \<open>never\<close>, otherwise a menu built
  from the updated settings). When the key is \<open>position\<close> and a live companion
  window exists, visible or hidden, it then moves the window to the position resolved
  from the new value; for any other key, or without a companion window, the window is
  untouched. In every case a later \<open>showWindow\<close> resolves the stored position.
\<close>

theorem updateSetting_effects:
  fixes st :: state and key val :: string
  defines "st' \<equiv> state_of (updateSetting st key val)"
  assumes "trayUsable st"
  shows "store st' =
           (store st)\<lparr>settings :=
              Some ((case settings (store st) of Some m \<Rightarrow> m | None \<Rightarrow> Map.empty)(key \<mapsto> val))\<rparr>
       \<and> (traySettings (store st') ''trayVisibility'' = Some ''never'' \<longrightarrow> tray st' = None)
       \<and> (traySettings (store st') ''trayVisibility'' \<noteq> Some ''never'' \<longrightarrow>
            map_option rightClickListeners (tray st') =
              Some [PopUpContextMenu (trayTemplate (traySettings (store st')))])
       \<and> (key = ''position'' \<and> companionWindow st = Some w \<and> \<not> isDestroyed w \<longrightarrow>
            updateSetting st key val = Done st'
            \<and> companionWindow st' =
                Some (w\<lparr>position := Some (positionSwitch (Some val) (width w) (height w)
                                          (workAreaWidth st) (workAreaHeight st))\<rparr>))
       \<and> (key \<noteq> ''position'' \<or> companionWindow st = None \<longrightarrow>
            updateSetting st key val = Done st' \<and> companionWindow st' = companionWindow st)
       \<and> (key = ''position'' \<longrightarrow> positionSettings (store st') ''position'' = Some val)"
proof (intro conjI impI)
  show s: "store st' =
      (store st)\<lparr>settings :=
         Some ((case settings (store st) of Some m \<Rightarrow> m | None \<Rightarrow> Map.empty)(key \<mapsto> val))\<rparr>"
    unfolding st'_def by (rule updateSetting_store)
  note t = updateSetting_tray [OF assms(2), of key val, folded st'_def]
  show "tray st' = None" if "traySettings (store st') ''trayVisibility'' = Some ''never''"
    using t that by blast
  show "map_option rightClickListeners (tray st') =
      Some [PopUpContextMenu (trayTemplate (traySettings (store st')))]"
    if "traySettings (store st') ''trayVisibility'' \<noteq> Some ''never''"
    using t that by blast
  show "positionSettings (store st') ''position'' = Some val" if "key = ''position''"
    using that by (simp add: s positionSettings_def)
next
  assume a: "key = ''position'' \<and> companionWindow st = Some w \<and> \<not> isDestroyed w"
  then have u: "updateSetting st key val =
     Done ((state_of (createTray (st\<lparr>store := (store st)\<lparr>settings :=
        Some ((case settings (store st) of Some m \<Rightarrow> m | None \<Rightarrow> Map.empty)
                (''position'' \<mapsto> val))\<rparr>\<rparr>)))
       \<lparr>companionWindow := Some (w\<lparr>position :=
           Some (positionSwitch (Some val) (width w) (height w)
                   (workAreaWidth st) (workAreaHeight st))\<rparr>)\<rparr>)"
    using assms(2) by (simp add: updateSetting_position_live)
  show "updateSetting st key val = Done st'"
    unfolding st'_def by (simp add: u)
  show "companionWindow st' =
      Some (w\<lparr>position := Some (positionSwitch (Some val) (width w) (height w)
                                (workAreaWidth st) (workAreaHeight st))\<rparr>)"
    unfolding st'_def by (simp add: u)
next
  assume a: "key \<noteq> ''position'' \<or> companionWindow st = None"
  note u = updateSetting_no_position [OF assms(2) a, of val]
  show "updateSetting st key val = Done st'"
    unfolding st'_def u
    by (rule createTray_Done) (use assms(2) in \<open>simp add: trayUsable_def\<close>)
  show "companionWindow st' = companionWindow st"
    unfolding st'_def u by (simp add: createTray_frame)
qed

text \<open>C9 on the hidden companion window of a concrete state.\<close>

theorem updateSetting_effects_witness:
  "trayUsable hiddenState
   \<and> companionWindow hiddenState = Some hiddenWindow \<and> \<not> isDestroyed hiddenWindow
   \<and> companionWindow (state_of (updateSetting hiddenState ''position'' ''bottom-left'')) =
       Some (hiddenWindow\<lparr>position := Some (20, 460)\<rparr>)
   \<and> positionSettings (store (state_of (updateSetting hiddenState ''position'' ''bottom-left'')))
        ''position'' = Some ''bottom-left''
   \<and> companionWindow (state_of (updateSetting hiddenState ''trayVisibility'' ''never'')) =
       Some hiddenWindow
   \<and> tray (state_of (updateSetting hiddenState ''trayVisibility'' ''never'')) = None"
proof -
  note p = updateSetting_effects [OF trayUsable_hiddenState,
      where key = "''position''" and val = "''bottom-left''" and w = hiddenWindow]
  note v = updateSetting_effects [OF trayUsable_hiddenState,
      where key = "''trayVisibility''" and val = "''never''" and w = hiddenWindow]
  have a: "companionWindow (state_of (updateSetting hiddenState ''position'' ''bottom-left'')) =
       Some (hiddenWindow\<lparr>position := Some (20, 460)\<rparr>)"
    using p by (elim conjE) (simp add: hiddenState_simps hiddenWindow_simps positionSwitch_eval)
  have b: "positionSettings (store (state_of (updateSetting hiddenState ''position''
        ''bottom-left''))) ''position'' = Some ''bottom-left''"
    using p by (elim conjE) simp
  have c: "companionWindow (state_of (updateSetting hiddenState ''trayVisibility'' ''never'')) =
       Some hiddenWindow"
    using v by (elim conjE) (simp add: hiddenState_simps)
  have d: "tray (state_of (updateSetting hiddenState ''trayVisibility'' ''never'')) = None"
    using v by (elim conjE) (simp add: hiddenState_simps traySettings_def)
  show ?thesis
    using trayUsable_hiddenState hiddenState_simps(2) hiddenWindow_simps(1) a b c d
    by (intro conjI)
qed

text \<open>
  C9 as stated fails: after start-up with a persisted host the companion window is
  hidden, and \<open>updateSetting('position', 'bottom-left')\<close> moves it at once to (20, 460)
  while it stays hidden.
\<close>

theorem updateSetting_moves_hidden_window:
  "whenReady (startup hostStore 1920 1080) True = Done runningState
   \<and> map_option isVisible (companionWindow runningState) = Some False
   \<and> map_option position (companionWindow runningState) = Some None
   \<and> map_option position
       (companionWindow (state_of (updateSetting runningState ''position'' ''bottom-left''))) =
       Some (Some (20, 460))
   \<and> map_option isVisible
       (companionWindow (state_of (updateSetting runningState ''position'' ''bottom-left''))) =
       Some False"
  by (simp add: updateSetting_position_live [OF trayUsable_runningState runningState_simps(1)
        hiddenWindow_simps(1)] runningState_eq(1) runningState_simps hiddenWindow_simps
        positionSwitch_eval)

text \<open>
  C10. \<open>updateSetting(key, val)\<close> changes the property \<open>key\<close> of the persisted
  settings object and nothing else in the store: every other property of the settings
  and the keys \<open>serverHost\<close> and \<open>computerId\<close> keep their values, also when the call
  ends in an exception.
\<close>

theorem updateSetting_frame:
  fixes st :: state and key val :: string
  defines "st' \<equiv> state_of (updateSetting st key val)"
  shows "serverHost (store st') = serverHost (store st)
       \<and> computerId (store st') = computerId (store st)
       \<and> settingsField st' key = Some val
       \<and> (k \<noteq> key \<longrightarrow> settingsField st' k = settingsField st k)"
  unfolding st'_def settingsField_def
  by (simp add: updateSetting_store split: option.splits)

text \<open>C10 on a store that holds a host and \<open>trayVisibility = never\<close>.\<close>

theorem updateSetting_frame_witness:
  "''trayVisibility'' \<noteq> ''position''
   \<and> serverHost (store (state_of (updateSetting neverState ''position'' ''bottom-left''))) =
       Some ''chat.example.com''
   \<and> settingsField (state_of (updateSetting neverState ''position'' ''bottom-left''))
       ''position'' = Some ''bottom-left''
   \<and> settingsField (state_of (updateSetting neverState ''position'' ''bottom-left''))
       ''trayVisibility'' = Some ''never''"
  using updateSetting_frame [where st = neverState and key = "''position''"
      and val = "''bottom-left''" and k = "''trayVisibility''"]
  by (elim conjE) (simp add: neverState_def trayState_def hiddenState_def startup_def hostStore_def
        settingsField_def)

end
